theory Spec2Isabelle
  imports Main
begin

section \<open>Error reasons and their user messages\<close>

text \<open>
  \<^verbatim>\<open>ErrorReason\<close> is the enumeration of the causes a refactoring reports through
  \<^verbatim>\<open>showError\<close>. Its declaration (\<^verbatim>\<open>i-show-error-message.ts\<close>) is not among the
  sources; the three members below are the ones the sources name. \<open>OtherReason\<close>
  stands for every further member of the enumeration.
\<close>

datatype ErrorReason =
    DidNotFoundExtractableCode
  | DidNotFoundNegatableExpression
  | DidNotFoundDeadCode
  | OtherReason nat

text \<open>Program text. The two emoji of the messages are given by their UTF-8 bytes.\<close>

type_synonym Code = string

definition thinkingFace :: Code where
  "thinkingFace = [CHR 0xF0, CHR 0x9F, CHR 0xA4, CHR 0x94]"

definition grinningFaceWithSweat :: Code where
  "grinningFaceWithSweat = [CHR 0xF0, CHR 0x9F, CHR 0x98, CHR 0x85]"

text \<open>
  The two messages of \<^verbatim>\<open>toString\<close>. The text of the second is written in two
  pieces.
\<close>

definition extractableCodeMessage :: Code where
  "extractableCodeMessage =
     ''I didn't found a valid code to extract from current selection '' @ thinkingFace"

definition genericMessage :: Code where
  "genericMessage =
     ''I'm so'' @ ''rry, something went wrong but I'm not sure what '' @ grinningFaceWithSweat"

text \<open>
  \<^verbatim>\<open>toString\<close> of \<^verbatim>\<open>show-error-message-in-vscode.ts\<close>: a \<^verbatim>\<open>switch\<close> with one case
  and a \<^verbatim>\<open>default\<close>.
\<close>

fun toString :: "ErrorReason \<Rightarrow> Code" where
  "toString DidNotFoundExtractableCode = extractableCodeMessage"
| "toString _ = genericMessage"


section \<open>Positions, selections and the VS Code adapter\<close>

text \<open>
  \<^verbatim>\<open>Position\<close> and \<^verbatim>\<open>Selection\<close> of the editor layer: zero-based line and character,
  and a start and an end position. \<^verbatim>\<open>new Selection([l1, c1], [l2, c2])\<close> is
  \<open>Selection (Position l1 c1) (Position l2 c2)\<close>.
\<close>

datatype Position = Position (line: nat) (character: nat)

datatype Selection = Selection (start: Position) (end': Position)

definition cursorAt :: "nat \<Rightarrow> nat \<Rightarrow> Selection" where
  "cursorAt l c = Selection (Position l c) (Position l c)"

text \<open>A \<^verbatim>\<open>Modification\<close>: the replacement text and the range it replaces.\<close>

record Modification =
  code :: Code
  selection :: Selection

text \<open>
  The values of the \<^verbatim>\<open>vscode\<close> API that \<^verbatim>\<open>readThenWrite\<close> builds:
  \<^verbatim>\<open>vscode.Position\<close>, \<^verbatim>\<open>vscode.Range\<close>, \<^verbatim>\<open>vscode.Selection\<close> and \<^verbatim>\<open>vscode.TextEdit\<close>.
\<close>

datatype VSCodePosition = VSCodePosition nat nat

datatype Range = Range VSCodePosition VSCodePosition

datatype VSCodeSelection = VSCodeSelection VSCodePosition VSCodePosition

datatype TextEdit = TextEdit Range Code

text \<open>
  The adapter's state. The document is seen through \<^verbatim>\<open>document.getText(range)\<close>,
  which belongs to the host and is therefore a function the state carries.
  \<open>applied\<close> lists the edits handed to \<^verbatim>\<open>vscode.workspace.applyEdit\<close>, one
  entry (the \<^verbatim>\<open>TextEdit\<close>s of one \<^verbatim>\<open>WorkspaceEdit\<close>) per call, oldest first.
\<close>

record VSCodeEditor =
  getText :: "Range \<Rightarrow> Code"
  editorSelection :: VSCodeSelection
  applied :: "TextEdit list list"

definition toVSCodePosition :: "Position \<Rightarrow> VSCodePosition" where
  "toVSCodePosition position = VSCodePosition (line position) (character position)"

definition toVSCodeCursor :: "Position \<Rightarrow> VSCodeSelection" where
  "toVSCodeCursor position =
     VSCodeSelection (toVSCodePosition position) (toVSCodePosition position)"

text \<open>The \<^verbatim>\<open>TextEdit\<close> that \<^verbatim>\<open>readThenWrite\<close> makes of one modification.\<close>

definition toTextEdit :: "Modification \<Rightarrow> TextEdit" where
  "toTextEdit m =
     (let startPosition = toVSCodePosition (start (selection m));
          endPosition = toVSCodePosition (end' (selection m))
      in TextEdit (Range startPosition endPosition) (Modification.code m))"

text \<open>
  \<^verbatim>\<open>VSCodeEditor.readThenWrite(selection, getModifications, newCursorPosition?)\<close>:
  read the text of the selection, turn each modification into a \<^verbatim>\<open>TextEdit\<close>,
  apply them as one \<^verbatim>\<open>WorkspaceEdit\<close>, then move the cursor when asked to.
\<close>

definition readThenWrite ::
  "Selection \<Rightarrow> (Code \<Rightarrow> Modification list) \<Rightarrow> Position option \<Rightarrow> VSCodeEditor \<Rightarrow> VSCodeEditor"
where
  "readThenWrite sel getModifications newCursorPosition ed =
     (let startPosition = toVSCodePosition (start sel);
          endPosition = toVSCodePosition (end' sel);
          readCode = getText ed (Range startPosition endPosition);
          textEdits = map toTextEdit (getModifications readCode);
          ed' = ed\<lparr>applied := applied ed @ [textEdits]\<rparr>
      in case newCursorPosition of
           None \<Rightarrow> ed'
         | Some p \<Rightarrow> ed'\<lparr>editorSelection := toVSCodeCursor p\<rparr>)"

text \<open>
  The translation the specification describes, written from its words: a position
  given relative to a fragment that starts at \<open>origin\<close> is moved to the document by
  adding the origin's line, and the origin's character on the fragment's first line.
\<close>

definition localToAbsolute :: "Position \<Rightarrow> Position \<Rightarrow> Position" where
  "localToAbsolute origin p =
     Position (line origin + line p)
              (if line p = 0 then character origin + character p else character p)"

definition translatedTextEdit :: "Position \<Rightarrow> Modification \<Rightarrow> TextEdit" where
  "translatedTextEdit origin m =
     TextEdit (Range (toVSCodePosition (localToAbsolute origin (start (selection m))))
                     (toVSCodePosition (localToAbsolute origin (end' (selection m)))))
              (Modification.code m)"

text \<open>
  A sample call: the document line \<^verbatim>\<open>if (a == b) {}\<close>, the selection of \<^verbatim>\<open>a == b\<close>
  (characters 4 to 10), and an update function that answers in the coordinates of
  the fragment it was given (characters 0 to 6).
\<close>

definition sampleGetText :: "Range \<Rightarrow> Code" where
  "sampleGetText r =
     (if r = Range (VSCodePosition 0 4) (VSCodePosition 0 10) then ''a == b''
      else ''if (a == b) {}'')"

definition sampleEditor :: VSCodeEditor where
  "sampleEditor =
     \<lparr>getText = sampleGetText,
      editorSelection = VSCodeSelection (VSCodePosition 0 4) (VSCodePosition 0 4),
      applied = []\<rparr>"

definition localModifications :: "Code \<Rightarrow> Modification list" where
  "localModifications readCode =
     [\<lparr>Modification.code = ''!(a != b)'', selection = Selection (Position 0 0) (Position 0 6)\<rparr>]"

definition absoluteModifications :: "Code \<Rightarrow> Modification list" where
  "absoluteModifications readCode =
     [\<lparr>Modification.code = ''!(a != b)'', selection = Selection (Position 0 4) (Position 0 10)\<rparr>]"


section \<open>Syntax trees\<close>

text \<open>
  The refactorings work on the syntax tree of the code, not on its text: parsing and
  printing belong to the parser library. A program is therefore modelled by its
  parsed form. Expressions carry the node kinds the refactorings distinguish; an
  operator is the string the parser stores in the node.
\<close>

type_synonym operator = string

datatype expr =
    Identifier string
  | BooleanLiteral bool
  | NumericLiteral nat
  | StringLiteral string
  | NullLiteral
  | UnaryExpression string expr
  | BinaryExpression operator expr expr
  | LogicalExpression string expr expr
  | MemberExpression expr string
  | CallExpression expr "expr list"

text \<open>
  Statements. \<open>IfStatement loc test consequent alternate\<close> carries the source range
  of the node, the only range dead-code removal consults. \<open>WhileStatement\<close> stands
  for the statements that hold one statement as their body. Expressions hold no
  statements: function expressions are left out.
\<close>

datatype stmt =
    ExpressionStatement expr
  | BlockStatement "stmt list"
  | IfStatement Selection expr stmt "stmt option"
  | WhileStatement expr stmt

type_synonym Program = "stmt list"


text \<open>
  Modelled from the spec: \<^verbatim>\<open>Selection.isInsidePath\<close> (\<^verbatim>\<open>selection.ts\<close> is not among the
  sources). The selection's start and end both fall within the node's range,
  bounds included, positions compared by line and then by character.
\<close>

definition positionLe :: "Position \<Rightarrow> Position \<Rightarrow> bool" where
  "positionLe p q = (line p < line q \<or> (line p = line q \<and> character p \<le> character q))"

definition isInsidePath :: "Selection \<Rightarrow> Selection \<Rightarrow> bool" where
  "isInsidePath sel nodeRange =
     (positionLe (start nodeRange) (start sel) \<and> positionLe (end' sel) (end' nodeRange))"


section \<open>The ast module\<close>

text \<open>
  The test a nested \<^verbatim>\<open>if\<close> is compared with. In the alternate branch it is the copy
  \<^verbatim>\<open>{...test, operator: getOppositeOperator(test.operator)}\<close> of the outer test;
  \<open>UndefinedOperator left right\<close> is that copy when \<^verbatim>\<open>getOppositeOperator\<close> gave
  \<^verbatim>\<open>undefined\<close>.
\<close>

datatype condition = Condition expr | UndefinedOperator expr expr

text \<open>
  The \<^verbatim>\<open>ast\<close> module is not among the sources. What \<^verbatim>\<open>remove-dead-code.ts\<close> takes
  from it are parameters of the model: the predicates \<^verbatim>\<open>isFalsy\<close>, \<^verbatim>\<open>isTruthy\<close>,
  \<^verbatim>\<open>areOpposite\<close> and \<^verbatim>\<open>areEqual\<close>, and \<open>offTable\<close>, the value of
  \<^verbatim>\<open>getOppositeOperator\<close> at an operator outside its table (\<open>None\<close> for
  \<^verbatim>\<open>undefined\<close>). Every theorem on dead-code removal holds for all of them.
\<close>

record ast =
  isFalsy :: "expr \<Rightarrow> bool"
  isTruthy :: "expr \<Rightarrow> bool"
  areOpposite :: "condition \<Rightarrow> expr \<Rightarrow> bool"
  areEqual :: "condition \<Rightarrow> expr \<Rightarrow> bool"
  offTable :: "operator \<Rightarrow> operator option"

text \<open>
  Modelled from the spec: \<^verbatim>\<open>getOppositeOperator\<close> (the function is in the \<^verbatim>\<open>ast\<close>
  module, not among the sources). Each of the eight comparison operators is mapped
  to its logical complement; at any other operator the answer is the parameter
  \<open>offTable\<close>.
\<close>

definition oppositeOperators :: "(operator \<times> operator) list" where
  "oppositeOperators =
     [(''=='', ''!=''), (''!='', ''==''), (''==='', ''!==''), (''!=='', ''===''),
      (''<'', ''>=''), (''<='', ''>''), (''>'', ''<=''), (''>='', ''<'')]"

definition getOppositeOperator :: "ast \<Rightarrow> operator \<Rightarrow> operator option" where
  "getOppositeOperator A op =
     (case map_of oppositeOperators op of Some op' \<Rightarrow> Some op' | None \<Rightarrow> offTable A op)"


section \<open>Removing dead code\<close>

text \<open>
  What a visitor asks of the path it is given: \<^verbatim>\<open>path.replaceWithMultiple(nodes)\<close> or
  \<^verbatim>\<open>path.remove()\<close>.
\<close>

datatype mutation = ReplaceWithMultiple "stmt list" | Remove

text \<open>
  Modelled from the spec: \<^verbatim>\<open>ast.replaceWithBodyOf(path, node)\<close> (in the \<^verbatim>\<open>ast\<close> module,
  not among the sources) collapses a branch into its parent: the path is replaced by
  the statements of the node, a block being unwrapped.
\<close>

fun getStatements :: "stmt \<Rightarrow> stmt list" where
  "getStatements (BlockStatement body) = body"
| "getStatements s = [s]"

definition replaceWithBodyOf :: "stmt \<Rightarrow> mutation" where
  "replaceWithBodyOf node = ReplaceWithMultiple (getStatements node)"

text \<open>\<^verbatim>\<open>replaceWithAlternate\<close>, \<^verbatim>\<open>replaceWithConsequent\<close> and \<^verbatim>\<open>removeDeadCodeFromNestedIf\<close>
  of \<^verbatim>\<open>remove-dead-code.ts\<close>, on the fields of the \<^verbatim>\<open>if\<close> node of the path.\<close>

definition replaceWithAlternate :: "stmt option \<Rightarrow> mutation" where
  "replaceWithAlternate alternate =
     (case alternate of Some a \<Rightarrow> replaceWithBodyOf a | None \<Rightarrow> Remove)"

definition replaceWithConsequent :: "stmt \<Rightarrow> mutation" where
  "replaceWithConsequent consequent = replaceWithBodyOf consequent"

definition removeDeadCodeFromNestedIf ::
  "ast \<Rightarrow> condition \<Rightarrow> expr \<Rightarrow> stmt \<Rightarrow> stmt option \<Rightarrow> mutation option" where
  "removeDeadCodeFromNestedIf A test nestedTest consequent alternate =
     (if areOpposite A test nestedTest then Some (replaceWithAlternate alternate)
      else if areEqual A test nestedTest then Some (replaceWithConsequent consequent)
      else None)"

text \<open>
  Modelled from the spec: the effect of a mutation on the tree (the traversal engine
  behind \<^verbatim>\<open>ast.transform\<close> is not among the sources). A visited statement is kept,
  replaced by a list of statements, or removed. In a statement list the
  replacement is spliced in. In the slot of a single statement the parent adjusts:
  a consequent or a loop body becomes a block of the new statements, empty when
  the node was removed, and a removed alternate leaves no else-branch.
\<close>

datatype visited = Kept stmt | Replaced "stmt list" | Removed

fun applyMutation :: "mutation \<Rightarrow> visited" where
  "applyMutation (ReplaceWithMultiple ss) = Replaced ss"
| "applyMutation Remove = Removed"

fun toList :: "visited \<Rightarrow> stmt list" where
  "toList (Kept s) = [s]"
| "toList (Replaced ss) = ss"
| "toList Removed = []"

fun toSlot :: "visited \<Rightarrow> stmt" where
  "toSlot (Kept s) = s"
| "toSlot (Replaced ss) = BlockStatement ss"
| "toSlot Removed = BlockStatement []"

fun toAlternate :: "visited \<Rightarrow> stmt option" where
  "toAlternate (Kept s) = Some s"
| "toAlternate (Replaced ss) = Some (BlockStatement ss)"
| "toAlternate Removed = None"

text \<open>
  The size of a statement that the traversals decrease: an \<^verbatim>\<open>if\<close> counts two, so
  that the block put in its place is smaller.
\<close>

fun weight :: "stmt \<Rightarrow> nat" and weights :: "stmt list \<Rightarrow> nat" where
  "weight (ExpressionStatement e) = 1"
| "weight (BlockStatement body) = Suc (weights body)"
| "weight (IfStatement loc t c None) = 2 + weight c"
| "weight (IfStatement loc t c (Some a)) = 2 + weight c + weight a"
| "weight (WhileStatement e b) = Suc (weight b)"
| "weights [] = 0"
| "weights (s # rest) = weight s + weights rest"

fun visitedWeight :: "visited \<Rightarrow> nat" where
  "visitedWeight (Kept s) = weight s"
| "visitedWeight (Replaced ss) = Suc (weights ss)"
| "visitedWeight Removed = 1"

lemma weight_pos: "0 < weight s"
proof (cases s)
  case (IfStatement loc t c a) then show ?thesis by (cases a) auto
qed auto

lemma weights_getStatements: "weights (getStatements s) \<le> weight s"
  by (cases s) auto

lemma mutation_smaller:
  "removeDeadCodeFromNestedIf A g t c a = Some (ReplaceWithMultiple ss) \<Longrightarrow>
   weights ss < weight (IfStatement loc t c a)"
  using weights_getStatements[of c]
  apply (cases a)
  apply (auto simp: removeDeadCodeFromNestedIf_def replaceWithAlternate_def replaceWithConsequent_def
     replaceWithBodyOf_def split: if_splits option.splits)
  subgoal for x using weights_getStatements[of x] by simp
  done

text \<open>
  The result of a nested traversal: the tree, whether a mutation took place, and
  how many times the visitor was called.
\<close>

record 'a walked =
  node :: 'a
  replaced :: bool
  fired :: nat

text \<open>
  Modelled from the spec: the nested traversal \<^verbatim>\<open>path.get(child).traverse({ IfStatement
  (childPath) { removeDeadCodeFromNestedIf(test, childPath) } })\<close> (the traversal engine
  is not among the sources). It is depth-first and pre-order, has no stop, and, as
  the parser library's \<^verbatim>\<open>traverse\<close> does, runs on the nodes below the child, not on
  the child itself: \<open>nestedChildren\<close> traverses the statements under a node,
  \<open>nestedVisit\<close> calls the visitor on a statement and goes on below it,
  \<open>nestedList\<close> walks a list of statements. The statements put in place of an \<^verbatim>\<open>if\<close>
  are queued and visited in turn.
\<close>

function (sequential) nestedVisit :: "ast \<Rightarrow> condition \<Rightarrow> stmt \<Rightarrow> visited walked"
  and nestedChildren :: "ast \<Rightarrow> condition \<Rightarrow> stmt \<Rightarrow> stmt walked"
  and nestedList :: "ast \<Rightarrow> condition \<Rightarrow> stmt list \<Rightarrow> stmt list walked"
where
  "nestedVisit A g (IfStatement loc t c a) =
     (case removeDeadCodeFromNestedIf A g t c a of
        Some (ReplaceWithMultiple ss) \<Rightarrow>
          (let w = nestedList A g ss
           in \<lparr>node = Replaced (node w), replaced = True, fired = Suc (fired w)\<rparr>)
      | Some Remove \<Rightarrow> \<lparr>node = Removed, replaced = True, fired = 1\<rparr>
      | None \<Rightarrow>
          (let w = nestedChildren A g (IfStatement loc t c a)
           in \<lparr>node = Kept (node w), replaced = replaced w, fired = Suc (fired w)\<rparr>))"
| "nestedVisit A g s =
     (let w = nestedChildren A g s
      in \<lparr>node = Kept (node w), replaced = replaced w, fired = fired w\<rparr>)"
| "nestedChildren A g (ExpressionStatement e) =
     \<lparr>node = ExpressionStatement e, replaced = False, fired = 0\<rparr>"
| "nestedChildren A g (BlockStatement body) =
     (let w = nestedList A g body
      in \<lparr>node = BlockStatement (node w), replaced = replaced w, fired = fired w\<rparr>)"
| "nestedChildren A g (IfStatement loc t c None) =
     (let wc = nestedVisit A g c
      in \<lparr>node = IfStatement loc t (toSlot (node wc)) None,
          replaced = replaced wc, fired = fired wc\<rparr>)"
| "nestedChildren A g (IfStatement loc t c (Some a)) =
     (let wc = nestedVisit A g c; wa = nestedVisit A g a
      in \<lparr>node = IfStatement loc t (toSlot (node wc)) (toAlternate (node wa)),
          replaced = (replaced wc \<or> replaced wa), fired = fired wc + fired wa\<rparr>)"
| "nestedChildren A g (WhileStatement e b) =
     (let w = nestedVisit A g b
      in \<lparr>node = WhileStatement e (toSlot (node w)), replaced = replaced w, fired = fired w\<rparr>)"
| "nestedList A g [] = \<lparr>node = [], replaced = False, fired = 0\<rparr>"
| "nestedList A g (s # rest) =
     (let w = nestedVisit A g s; ws = nestedList A g rest
      in \<lparr>node = toList (node w) @ node ws,
          replaced = (replaced w \<or> replaced ws), fired = fired w + fired ws\<rparr>)"
  by pat_completeness auto
termination
  apply (relation "measures [\<lambda>x. case x of Inl (A, g, s) \<Rightarrow> weight s
                                   | Inr (Inl (A, g, s)) \<Rightarrow> weight s
                                   | Inr (Inr (A, g, ss)) \<Rightarrow> weights ss,
                             \<lambda>x. case x of Inl _ \<Rightarrow> 1 | Inr (Inl _) \<Rightarrow> 0 | Inr (Inr _) \<Rightarrow> 2]")
  apply (auto dest: mutation_smaller simp: weight_pos)
  done


lemma weight_toSlot: "weight (toSlot v) = visitedWeight v"
  by (cases v) auto

lemma weights_toList: "weights (toList v) \<le> visitedWeight v"
  by (cases v) auto

lemma weight_toAlternate:
  "(case toAlternate v of None \<Rightarrow> 0 | Some s \<Rightarrow> weight s) \<le> visitedWeight v"
  by (cases v) auto

lemma weights_append: "weights (xs @ ys) = weights xs + weights ys"
  by (induction xs) auto

lemma nested_weight:
  "visitedWeight (node (nestedVisit A g s)) \<le> weight s"
  "weight (node (nestedChildren A g s)) \<le> weight s"
  "weights (node (nestedList A g ss)) \<le> weights ss"
proof (induction A g s and A g s and A g ss rule: nestedVisit_nestedChildren_nestedList.induct)
  case (1 A g loc t c a)
  show ?case
  proof (cases "removeDeadCodeFromNestedIf A g t c a")
    case None
    with 1 show ?thesis by (simp add: Let_def)
  next
    case (Some m)
    show ?thesis
    proof (cases m)
      case (ReplaceWithMultiple ss)
      from 1 Some ReplaceWithMultiple
      have "weights (node (nestedList A g ss)) \<le> weights ss" by blast
      with Some ReplaceWithMultiple mutation_smaller[of A g t c a ss loc]
      show ?thesis by (simp add: Let_def)
    next
      case Remove
      with Some show ?thesis using weight_pos[of "IfStatement loc t c a"] by simp
    qed
  qed
next
  case (6 A g loc t c a)
  then show ?case
    using weight_toAlternate[of "node (nestedVisit A g a)"]
    by (simp add: Let_def weight_toSlot split: option.splits)
next
  case (9 A g s rest)
  then show ?case
    using weights_toList[of "node (nestedVisit A g s)"]
    by (simp add: Let_def weights_append)
qed (simp_all add: Let_def weight_toSlot)


text \<open>
  The test the nested \<^verbatim>\<open>if\<close>s of the alternate are compared with, as the visitor of
  \<^verbatim>\<open>updateCode\<close> builds it: the outer test with its operator replaced by
  \<^verbatim>\<open>getOppositeOperator\<close>'s answer when it is a binary expression, the outer test
  itself otherwise.
\<close>

definition oppositeTest :: "ast \<Rightarrow> expr \<Rightarrow> condition" where
  "oppositeTest A test =
     (case test of
        BinaryExpression op l r \<Rightarrow>
          (case getOppositeOperator A op of
             Some op' \<Rightarrow> Condition (BinaryExpression op' l r)
           | None \<Rightarrow> UndefinedOperator l r)
      | _ \<Rightarrow> Condition test)"

text \<open>
  The arguments \<^verbatim>\<open>getOppositeOperator\<close> receives in one traversal of the alternate:
  the visitor builds the opposite test each time it is called, so the operator of a
  binary test is passed once per call.
\<close>

fun oppositeOperatorCalls :: "expr \<Rightarrow> nat \<Rightarrow> operator list" where
  "oppositeOperatorCalls (BinaryExpression op l r) n = replicate n op"
| "oppositeOperatorCalls _ n = []"

text \<open>\<^verbatim>\<open>path.get("alternate").traverse(...)\<close>: nothing to traverse when there is no
  alternate.\<close>

definition traverseAlternate :: "ast \<Rightarrow> condition \<Rightarrow> stmt option \<Rightarrow> stmt option walked" where
  "traverseAlternate A g alternate =
     (case alternate of
        None \<Rightarrow> \<lparr>node = None, replaced = False, fired = 0\<rparr>
      | Some a \<Rightarrow>
          (let w = nestedChildren A g a
           in \<lparr>node = Some (node w), replaced = replaced w, fired = fired w\<rparr>))"

text \<open>
  The result of the main traversal: the tree, whether a mutation took place
  (\<^verbatim>\<open>hasCodeChanged\<close>), whether \<^verbatim>\<open>path.stop()\<close> was called, and the operators
  passed to \<^verbatim>\<open>getOppositeOperator\<close>, in order.
\<close>

record 'a traversed =
  tree :: 'a
  changed :: bool
  stopped :: bool
  flipped :: "operator list"

lemma weight_traverseAlternate:
  "(case node (traverseAlternate A g a) of None \<Rightarrow> 0 | Some s \<Rightarrow> weight s)
     \<le> (case a of None \<Rightarrow> 0 | Some s \<Rightarrow> weight s)"
  by (cases a) (simp_all add: traverseAlternate_def Let_def nested_weight)

lemma weight_IfStatement:
  "weight (IfStatement loc t c a) = 2 + weight c + (case a of None \<Rightarrow> 0 | Some s \<Rightarrow> weight s)"
  by (cases a) simp_all

text \<open>
  The visitor \<^verbatim>\<open>IfStatement(path) {...}\<close> of \<^verbatim>\<open>updateCode\<close>, on the fields of the \<^verbatim>\<open>if\<close>
  node of the path. It returns at once when the path does not hold the selection;
  it replaces the path and calls \<^verbatim>\<open>path.stop()\<close> when the test is falsy or truthy;
  otherwise it traverses the consequent with the nested visitor on the test, and
  the alternate with the nested visitor on the opposite test.
\<close>

datatype action =
    Return
  | ReplaceAndStop mutation
  | TraverseBranches condition condition

definition updateCodeVisitor ::
  "ast \<Rightarrow> Selection \<Rightarrow> Selection \<Rightarrow> expr \<Rightarrow> stmt \<Rightarrow> stmt option \<Rightarrow> action" where
  "updateCodeVisitor A sel loc test consequent alternate =
     (if \<not> isInsidePath sel loc then Return
      else if isFalsy A test then ReplaceAndStop (replaceWithAlternate alternate)
      else if isTruthy A test then ReplaceAndStop (replaceWithConsequent consequent)
      else TraverseBranches (Condition test) (oppositeTest A test))"

text \<open>
  Modelled from the spec: the traversal of \<^verbatim>\<open>ast.transform(code, visitor)\<close> (the traversal
  engine is not among the sources), run with the visitor of \<^verbatim>\<open>updateCode\<close>. It is
  depth-first and pre-order. \<open>visit\<close> calls the visitor on a statement: after a
  plain return the traversal goes on below the \<^verbatim>\<open>if\<close>; a replacement with
  \<^verbatim>\<open>path.stop()\<close> ends the traversal, and nothing more is visited; after the two nested
  traversals the traversal goes on below the \<^verbatim>\<open>if\<close>, on the tree as they left it.
\<close>

function (sequential) visit :: "ast \<Rightarrow> Selection \<Rightarrow> stmt \<Rightarrow> visited traversed"
  and visitChildren :: "ast \<Rightarrow> Selection \<Rightarrow> stmt \<Rightarrow> stmt traversed"
  and visitList :: "ast \<Rightarrow> Selection \<Rightarrow> stmt list \<Rightarrow> stmt list traversed"
where
  "visit A sel (IfStatement loc test c a) =
     (case updateCodeVisitor A sel loc test c a of
        Return \<Rightarrow>
          (let w = visitChildren A sel (IfStatement loc test c a)
           in \<lparr>tree = Kept (tree w), changed = changed w, stopped = stopped w,
               flipped = flipped w\<rparr>)
      | ReplaceAndStop m \<Rightarrow>
          \<lparr>tree = applyMutation m, changed = True, stopped = True, flipped = []\<rparr>
      | TraverseBranches g g' \<Rightarrow>
          (let wc = nestedChildren A g c;
               wa = traverseAlternate A g' a;
               w = visitChildren A sel (IfStatement loc test (node wc) (node wa))
           in \<lparr>tree = Kept (tree w),
               changed = (replaced wc \<or> replaced wa \<or> changed w),
               stopped = stopped w,
               flipped = oppositeOperatorCalls test (fired wa) @ flipped w\<rparr>))"
| "visit A sel s =
     (let w = visitChildren A sel s
      in \<lparr>tree = Kept (tree w), changed = changed w, stopped = stopped w,
          flipped = flipped w\<rparr>)"
| "visitChildren A sel (ExpressionStatement e) =
     \<lparr>tree = ExpressionStatement e, changed = False, stopped = False, flipped = []\<rparr>"
| "visitChildren A sel (BlockStatement body) =
     (let w = visitList A sel body
      in \<lparr>tree = BlockStatement (tree w), changed = changed w, stopped = stopped w,
          flipped = flipped w\<rparr>)"
| "visitChildren A sel (IfStatement loc test c None) =
     (let wc = visit A sel c
      in \<lparr>tree = IfStatement loc test (toSlot (tree wc)) None, changed = changed wc,
          stopped = stopped wc, flipped = flipped wc\<rparr>)"
| "visitChildren A sel (IfStatement loc test c (Some a)) =
     (let wc = visit A sel c
      in if stopped wc then
           \<lparr>tree = IfStatement loc test (toSlot (tree wc)) (Some a), changed = changed wc,
            stopped = True, flipped = flipped wc\<rparr>
         else
           (let wa = visit A sel a
            in \<lparr>tree = IfStatement loc test (toSlot (tree wc)) (toAlternate (tree wa)),
                changed = (changed wc \<or> changed wa), stopped = stopped wa,
                flipped = flipped wc @ flipped wa\<rparr>))"
| "visitChildren A sel (WhileStatement e b) =
     (let w = visit A sel b
      in \<lparr>tree = WhileStatement e (toSlot (tree w)), changed = changed w,
          stopped = stopped w, flipped = flipped w\<rparr>)"
| "visitList A sel [] = \<lparr>tree = [], changed = False, stopped = False, flipped = []\<rparr>"
| "visitList A sel (s # rest) =
     (let w = visit A sel s
      in if stopped w then
           \<lparr>tree = toList (tree w) @ rest, changed = changed w, stopped = True,
            flipped = flipped w\<rparr>
         else
           (let ws = visitList A sel rest
            in \<lparr>tree = toList (tree w) @ tree ws, changed = (changed w \<or> changed ws),
                stopped = stopped ws, flipped = flipped w @ flipped ws\<rparr>))"
  by pat_completeness auto

termination
  apply (relation "measures [\<lambda>x. case x of Inl (A, sel, s) \<Rightarrow> weight s
                                   | Inr (Inl (A, sel, s)) \<Rightarrow> weight s
                                   | Inr (Inr (A, sel, ss)) \<Rightarrow> weights ss,
                             \<lambda>x. case x of Inl _ \<Rightarrow> 1 | Inr (Inl _) \<Rightarrow> 0 | Inr (Inr _) \<Rightarrow> 2]")
  apply (auto simp: weight_pos)
  subgoal for A sel loc test c a g g'
    using nested_weight(2)[of A g c] weight_traverseAlternate[of A g' a]
    by (simp add: weight_IfStatement)
  done

declare visit.simps(1) [simp del]

lemma visit_IfStatement [simp]:
  "visit A sel (IfStatement loc test c a) =
     (if \<not> isInsidePath sel loc then
        (let w = visitChildren A sel (IfStatement loc test c a)
         in \<lparr>tree = Kept (tree w), changed = changed w, stopped = stopped w,
             flipped = flipped w\<rparr>)
      else if isFalsy A test then
        \<lparr>tree = applyMutation (replaceWithAlternate a), changed = True, stopped = True,
         flipped = []\<rparr>
      else if isTruthy A test then
        \<lparr>tree = applyMutation (replaceWithConsequent c), changed = True, stopped = True,
         flipped = []\<rparr>
      else
        (let wc = nestedChildren A (Condition test) c;
             wa = traverseAlternate A (oppositeTest A test) a;
             w = visitChildren A sel (IfStatement loc test (node wc) (node wa))
         in \<lparr>tree = Kept (tree w),
             changed = (replaced wc \<or> replaced wa \<or> changed w),
             stopped = stopped w,
             flipped = oppositeOperatorCalls test (fired wa) @ flipped w\<rparr>))"
  by (simp add: visit.simps(1) updateCodeVisitor_def)

text \<open>
  The outcome of a transformation. In the source \<^verbatim>\<open>code\<close> is the printed tree; here
  it is the tree.
\<close>

record Transformed =
  code :: Program
  hasCodeChanged :: bool

record Editor =
  written :: "Program list"
  shownErrors :: "ErrorReason list"

definition editorWrite :: "Program \<Rightarrow> Editor \<Rightarrow> Editor" where
  "editorWrite program editor = editor\<lparr>written := written editor @ [program]\<rparr>"

definition showError :: "ErrorReason \<Rightarrow> Editor \<Rightarrow> Editor" where
  "showError reason editor = editor\<lparr>shownErrors := shownErrors editor @ [reason]\<rparr>"

definition updateCode :: "ast \<Rightarrow> Program \<Rightarrow> Selection \<Rightarrow> Transformed" where
  "updateCode A program sel =
     (let w = visitList A sel program
      in \<lparr>Transformed.code = tree w, hasCodeChanged = changed w\<rparr>)"

definition removeDeadCode :: "ast \<Rightarrow> Program \<Rightarrow> Selection \<Rightarrow> Editor \<Rightarrow> Editor" where
  "removeDeadCode A program sel editor =
     (let updatedCode = updateCode A program sel
      in if \<not> hasCodeChanged updatedCode then showError DidNotFoundDeadCode editor
         else editorWrite (Transformed.code updatedCode) editor)"

definition hasDeadCode :: "ast \<Rightarrow> Program \<Rightarrow> Selection \<Rightarrow> bool" where
  "hasDeadCode A program sel = hasCodeChanged (updateCode A program sel)"

text \<open>The operators passed to \<^verbatim>\<open>getOppositeOperator\<close> in one run of \<^verbatim>\<open>updateCode\<close>.\<close>

definition oppositeOperatorArguments :: "ast \<Rightarrow> Program \<Rightarrow> Selection \<Rightarrow> operator list" where
  "oppositeOperatorArguments A program sel = flipped (visitList A sel program)"


text \<open>
  The \<^verbatim>\<open>if\<close> statements of a tree, each by its range and test: all of them (\<open>ifs\<close>),
  and those strictly below a statement (\<open>ifsBelow\<close>). \<open>undecided A g nodes\<close>: none
  of the tests is the opposite of, or equal to, the condition \<open>g\<close>.
\<close>

fun ifs :: "stmt \<Rightarrow> (Selection \<times> expr) set"
  and ifsOfList :: "stmt list \<Rightarrow> (Selection \<times> expr) set" where
  "ifs (ExpressionStatement e) = {}"
| "ifs (BlockStatement body) = ifsOfList body"
| "ifs (IfStatement loc t c None) = insert (loc, t) (ifs c)"
| "ifs (IfStatement loc t c (Some a)) = insert (loc, t) (ifs c \<union> ifs a)"
| "ifs (WhileStatement e b) = ifs b"
| "ifsOfList [] = {}"
| "ifsOfList (s # rest) = ifs s \<union> ifsOfList rest"

fun ifsBelow :: "stmt \<Rightarrow> (Selection \<times> expr) set" where
  "ifsBelow (IfStatement loc t c None) = ifs c"
| "ifsBelow (IfStatement loc t c (Some a)) = ifs c \<union> ifs a"
| "ifsBelow s = ifs s"

definition undecided :: "ast \<Rightarrow> condition \<Rightarrow> (Selection \<times> expr) set \<Rightarrow> bool" where
  "undecided A g nodes = (\<forall>(loc, t) \<in> nodes. \<not> areOpposite A g t \<and> \<not> areEqual A g t)"

definition undecidedOperators :: "ast \<Rightarrow> Selection \<Rightarrow> (Selection \<times> expr) set \<Rightarrow> operator set" where
  "undecidedOperators A sel nodes =
     {op. \<exists>loc l r. (loc, BinaryExpression op l r) \<in> nodes \<and> isInsidePath sel loc
            \<and> \<not> isFalsy A (BinaryExpression op l r) \<and> \<not> isTruthy A (BinaryExpression op l r)}"


text \<open>
  A place in a program, from the outside in: the statement sits in a block, between
  the statements before it and those after it; or it is the body of a loop, the
  consequent of an \<^verbatim>\<open>if\<close>, or its alternate.
\<close>

datatype frame =
    InBlock "stmt list" "stmt list"
  | InLoop expr
  | InConsequent Selection expr "stmt option"
  | InAlternate Selection expr stmt

text \<open>
  \<open>fill fs v\<close> puts the outcome \<open>v\<close> of a visit in the place \<open>fs\<close>: in a block the
  statements of \<open>v\<close> are spliced in, and a single-statement slot takes them as the
  traversal leaves them (\<open>toSlot\<close>, \<open>toAlternate\<close>). \<open>place before fs v after\<close> is the
  program with the statements \<open>before\<close>, then the statement that holds the place, then
  the statements \<open>after\<close>.
\<close>

fun fillFrame :: "frame \<Rightarrow> visited \<Rightarrow> stmt" where
  "fillFrame (InBlock before after) v = BlockStatement (before @ toList v @ after)"
| "fillFrame (InLoop e) v = WhileStatement e (toSlot v)"
| "fillFrame (InConsequent loc t a) v = IfStatement loc t (toSlot v) a"
| "fillFrame (InAlternate loc t c) v = IfStatement loc t c (toAlternate v)"

fun fill :: "frame list \<Rightarrow> visited \<Rightarrow> visited" where
  "fill [] v = v"
| "fill (f # fs) v = Kept (fillFrame f (fill fs v))"

definition place :: "stmt list \<Rightarrow> frame list \<Rightarrow> visited \<Rightarrow> stmt list \<Rightarrow> Program" where
  "place before fs v after = before @ toList (fill fs v) @ after"

text \<open>
  \<open>quiet sel nodes\<close>: none of the \<^verbatim>\<open>if\<close> statements holds the selection, so the
  visitor returns at once on each of them.
\<close>

definition quiet :: "Selection \<Rightarrow> (Selection \<times> expr) set \<Rightarrow> bool" where
  "quiet sel nodes = (\<forall>(loc, t) \<in> nodes. \<not> isInsidePath sel loc)"

text \<open>
  \<open>passes A sel loc t c a\<close>: the visitor leaves the \<^verbatim>\<open>if\<close> statement as it is and the
  traversal goes on below it. Either the \<^verbatim>\<open>if\<close> does not hold the selection, or its test
  is neither falsy nor truthy and no \<^verbatim>\<open>if\<close> below its consequent, or below its
  alternate, has a test that is the opposite of, or equal to, its governing condition.
\<close>

definition passes :: "ast \<Rightarrow> Selection \<Rightarrow> Selection \<Rightarrow> expr \<Rightarrow> stmt \<Rightarrow> stmt option \<Rightarrow> bool" where
  "passes A sel loc t c a =
     (\<not> isInsidePath sel loc \<or>
      (\<not> isFalsy A t \<and> \<not> isTruthy A t
       \<and> undecided A (Condition t) (ifsBelow c)
       \<and> undecided A (oppositeTest A t) (case a of None \<Rightarrow> {} | Some s \<Rightarrow> ifsBelow s)))"

text \<open>
  \<open>reaches A sel fs s\<close>: the traversal comes to the statement \<open>s\<close> in the place \<open>fs\<close>
  with the tree as it was. Nothing visited before \<open>s\<close> holds the selection, apart from
  the enclosing \<^verbatim>\<open>if\<close> statements, which all pass. \<open>restQuiet sel fs\<close>: no \<^verbatim>\<open>if\<close>
  statement visited after the place holds the selection.
\<close>

fun reaches :: "ast \<Rightarrow> Selection \<Rightarrow> frame list \<Rightarrow> stmt \<Rightarrow> bool" where
  "reaches A sel [] s = True"
| "reaches A sel (InBlock before after # fs) s =
     (quiet sel (ifsOfList before) \<and> reaches A sel fs s)"
| "reaches A sel (InLoop e # fs) s = reaches A sel fs s"
| "reaches A sel (InConsequent loc t a # fs) s =
     (passes A sel loc t (toSlot (fill fs (Kept s))) a \<and> reaches A sel fs s)"
| "reaches A sel (InAlternate loc t c # fs) s =
     (passes A sel loc t c (Some (toSlot (fill fs (Kept s)))) \<and> quiet sel (ifs c)
      \<and> reaches A sel fs s)"

fun restQuiet :: "Selection \<Rightarrow> frame list \<Rightarrow> bool" where
  "restQuiet sel [] = True"
| "restQuiet sel (InBlock before after # fs) =
     (quiet sel (ifsOfList after) \<and> restQuiet sel fs)"
| "restQuiet sel (InLoop e # fs) = restQuiet sel fs"
| "restQuiet sel (InConsequent loc t a # fs) =
     (quiet sel (case a of None \<Rightarrow> {} | Some s \<Rightarrow> ifs s) \<and> restQuiet sel fs)"
| "restQuiet sel (InAlternate loc t c # fs) = restQuiet sel fs"


section \<open>A reading of the ast module\<close>

text \<open>
  Modelled from the spec: one instance of the \<^verbatim>\<open>ast\<close> module's predicates (the module
  is not among the sources), used to run the model on sample programs.
  \<open>specIsFalsy\<close> and \<open>specIsTruthy\<close> fold constants over literals, \<^verbatim>\<open>!\<close> and strict
  equality of two literals, and are false of anything else. \<open>specAreEqual\<close> is
  structural equality. \<open>specAreOpposite\<close> holds of two binary expressions on the same
  operands whose operators are opposite in the table, and of an identifier or
  member expression and its negation. \<^verbatim>\<open>getOppositeOperator\<close> is \<^verbatim>\<open>undefined\<close> outside
  its table.
\<close>

fun isLiteral :: "expr \<Rightarrow> bool" where
  "isLiteral (BooleanLiteral b) = True"
| "isLiteral (NumericLiteral n) = True"
| "isLiteral (StringLiteral s) = True"
| "isLiteral NullLiteral = True"
| "isLiteral _ = False"

fun specIsFalsy :: "expr \<Rightarrow> bool" and specIsTruthy :: "expr \<Rightarrow> bool" where
  "specIsFalsy (BooleanLiteral b) = (\<not> b)"
| "specIsFalsy (NumericLiteral n) = (n = 0)"
| "specIsFalsy (StringLiteral s) = (s = [])"
| "specIsFalsy NullLiteral = True"
| "specIsFalsy (UnaryExpression op e) = (op = ''!'' \<and> specIsTruthy e)"
| "specIsFalsy (BinaryExpression op l r) =
     (isLiteral l \<and> isLiteral r \<and> ((op = ''==='' \<and> l \<noteq> r) \<or> (op = ''!=='' \<and> l = r)))"
| "specIsFalsy _ = False"
| "specIsTruthy (BooleanLiteral b) = b"
| "specIsTruthy (NumericLiteral n) = (n \<noteq> 0)"
| "specIsTruthy (StringLiteral s) = (s \<noteq> [])"
| "specIsTruthy NullLiteral = False"
| "specIsTruthy (UnaryExpression op e) = (op = ''!'' \<and> specIsFalsy e)"
| "specIsTruthy (BinaryExpression op l r) =
     (isLiteral l \<and> isLiteral r \<and> ((op = ''==='' \<and> l = r) \<or> (op = ''!=='' \<and> l \<noteq> r)))"
| "specIsTruthy _ = False"

fun isIdentifierOrMember :: "expr \<Rightarrow> bool" where
  "isIdentifierOrMember (Identifier x) = True"
| "isIdentifierOrMember (MemberExpression obj p) = True"
| "isIdentifierOrMember _ = False"

fun specAreEqual :: "condition \<Rightarrow> expr \<Rightarrow> bool" where
  "specAreEqual (Condition a) b = (a = b)"
| "specAreEqual (UndefinedOperator l r) b = False"

definition isNegationOf :: "expr \<Rightarrow> expr \<Rightarrow> bool" where
  "isNegationOf a b = (isIdentifierOrMember b \<and> a = UnaryExpression ''!'' b)"

fun specAreOpposite :: "condition \<Rightarrow> expr \<Rightarrow> bool" where
  "specAreOpposite (Condition (BinaryExpression op l r)) (BinaryExpression op' l' r') =
     (map_of oppositeOperators op = Some op' \<and> l = l' \<and> r = r')"
| "specAreOpposite (Condition a) b = (isNegationOf a b \<or> isNegationOf b a)"
| "specAreOpposite (UndefinedOperator l r) b = False"

definition specAst :: ast where
  "specAst = \<lparr>isFalsy = specIsFalsy, isTruthy = specIsTruthy,
              areOpposite = specAreOpposite, areEqual = specAreEqual,
              offTable = (\<lambda>op. None)\<rparr>"

definition stmtX :: stmt where "stmtX = ExpressionStatement (CallExpression (Identifier ''x'') [])"
definition stmtY :: stmt where "stmtY = ExpressionStatement (CallExpression (Identifier ''y'') [])"

text \<open>
  Sample programs. \<open>arithmeticProgram\<close> is
  \<^verbatim>\<open>if (a + b) {} else { if (c) {} }\<close>; \<open>nestedProgram\<close> has the test \<^verbatim>\<open>a == b\<close> with
  nested \<^verbatim>\<open>if\<close>s on \<^verbatim>\<open>a != b\<close>, \<^verbatim>\<open>a == b\<close> and \<^verbatim>\<open>c\<close> in both branches;
  \<open>decidedProgram\<close> is \<^verbatim>\<open>if (true) { if (false) { x() } else { y() } }\<close>
  followed by \<^verbatim>\<open>x()\<close>, the inner \<^verbatim>\<open>if\<close>, \<open>innerDecided\<close>, on a line of its own.
\<close>

definition arithmeticProgram :: Program where
  "arithmeticProgram =
     [IfStatement (Selection (Position 0 0) (Position 0 32))
        (BinaryExpression ''+'' (Identifier ''a'') (Identifier ''b''))
        (BlockStatement [])
        (Some (BlockStatement
           [IfStatement (Selection (Position 0 21) (Position 0 30)) (Identifier ''c'')
              (BlockStatement []) None]))]"

definition nestedTest :: expr where
  "nestedTest = BinaryExpression ''=='' (Identifier ''a'') (Identifier ''b'')"

definition nestedConsequent :: stmt where
  "nestedConsequent =
     BlockStatement
       [IfStatement (Selection (Position 1 2) (Position 1 30))
          (BinaryExpression ''!='' (Identifier ''a'') (Identifier ''b''))
          (BlockStatement [stmtX]) (Some (BlockStatement [stmtY])),
        IfStatement (Selection (Position 2 2) (Position 2 30))
          (BinaryExpression ''=='' (Identifier ''a'') (Identifier ''b''))
          (BlockStatement [stmtX]) (Some (BlockStatement [stmtY]))]"

definition nestedAlternate :: stmt where
  "nestedAlternate =
     BlockStatement
       [IfStatement (Selection (Position 5 2) (Position 5 30))
          (BinaryExpression ''!='' (Identifier ''a'') (Identifier ''b''))
          (BlockStatement [stmtX]) (Some (BlockStatement [stmtY])),
        IfStatement (Selection (Position 6 2) (Position 6 30))
          (BinaryExpression ''=='' (Identifier ''a'') (Identifier ''b''))
          (BlockStatement [stmtX]) None,
        IfStatement (Selection (Position 7 2) (Position 7 30))
          (Identifier ''c'')
          (BlockStatement [stmtX]) None]"

definition nestedProgram :: Program where
  "nestedProgram =
     [IfStatement (Selection (Position 0 0) (Position 9 1)) nestedTest
        nestedConsequent (Some nestedAlternate)]"

definition emptyEditor :: Editor where
  "emptyEditor = \<lparr>written = [], shownErrors = []\<rparr>"

definition innerDecided :: stmt where
  "innerDecided =
     IfStatement (Selection (Position 1 2) (Position 1 33)) (BooleanLiteral False)
       (BlockStatement [stmtX]) (Some (BlockStatement [stmtY]))"

definition decidedProgram :: Program where
  "decidedProgram =
     [IfStatement (Selection (Position 0 0) (Position 2 1)) (BooleanLiteral True)
        (BlockStatement [innerDecided]) None,
      stmtX]"


text \<open>
  More sample programs. \<open>guardedProgram\<close> is \<^verbatim>\<open>y()\<close>, then
  \<^verbatim>\<open>if (c) { x(); if (false) { x() } else { y() } if (true) { x() } }\<close> with each
  nested \<^verbatim>\<open>if\<close> on a line of its own, then \<^verbatim>\<open>x()\<close>. \<open>shadowedProgram\<close> is
  \<^verbatim>\<open>if (true) { if (a == b) { if (a != b) { x() } else { y() } } }\<close>, one \<^verbatim>\<open>if\<close> to
  a line. \<open>loopProgram\<close> is \<^verbatim>\<open>x()\<close> and a loop whose body holds an \<^verbatim>\<open>if\<close> on
  \<^verbatim>\<open>a == b\<close>, followed by \<^verbatim>\<open>y()\<close>; the consequent of that \<^verbatim>\<open>if\<close> has a loop around
  an \<^verbatim>\<open>if\<close> on \<^verbatim>\<open>a != b\<close>, an \<^verbatim>\<open>if\<close> on \<^verbatim>\<open>a == b\<close> and one on \<^verbatim>\<open>c\<close>, its alternate
  an \<^verbatim>\<open>if\<close> on \<^verbatim>\<open>a != b\<close> and one on \<^verbatim>\<open>a == b\<close>, both without \<^verbatim>\<open>else\<close>.
\<close>

definition guardedProgram :: Program where
  "guardedProgram =
     [stmtY,
      IfStatement (Selection (Position 1 0) (Position 5 1)) (Identifier ''c'')
        (BlockStatement
           [stmtX,
            IfStatement (Selection (Position 3 2) (Position 3 33)) (BooleanLiteral False)
              (BlockStatement [stmtX]) (Some (BlockStatement [stmtY])),
            IfStatement (Selection (Position 4 2) (Position 4 19)) (BooleanLiteral True)
              (BlockStatement [stmtX]) None])
        None,
      stmtX]"







section \<open>Negating an expression\<close>

text \<open>
  \<^verbatim>\<open>negate-expression.ts\<close> is not among the sources; its tests are. The definitions
  of this section are written from the specification and agree with every fixture
  of the tests.
\<close>

text \<open>
  Modelled from the spec: the rewrite rules of \<^verbatim>\<open>negateExpression\<close> (\<^verbatim>\<open>negate-expression.ts\<close>
  is not among the sources). \<open>negateOperand\<close> is the specification's \<^verbatim>\<open>NOT\<close>: a
  comparison has its operator flipped, \<^verbatim>\<open>a && b\<close> becomes \<^verbatim>\<open>!(NOT(a) || NOT(b))\<close> and
  \<^verbatim>\<open>a || b\<close> becomes \<^verbatim>\<open>!(NOT(a) && NOT(b))\<close>, \<^verbatim>\<open>!x\<close> becomes \<^verbatim>\<open>x\<close>, and anything else
  gains a \<^verbatim>\<open>!\<close>. \<open>negate\<close> rewrites the chosen target: a comparison alone is
  flipped and wrapped in one \<^verbatim>\<open>!\<close>; an already negated \<^verbatim>\<open>!(x)\<close> loses its \<^verbatim>\<open>!\<close> and
  \<^verbatim>\<open>x\<close> is simplified back (\<open>simplifyBack\<close>); every other target follows \<^verbatim>\<open>NOT\<close>.
\<close>

definition getNegatedLogicalOperator :: "string \<Rightarrow> string" where
  "getNegatedLogicalOperator op =
     (if op = ''&&'' then ''||'' else if op = ''||'' then ''&&'' else op)"

fun negateOperand :: "expr \<Rightarrow> expr" where
  "negateOperand (BinaryExpression op l r) =
     (case map_of oppositeOperators op of
        Some op' \<Rightarrow> BinaryExpression op' l r
      | None \<Rightarrow> UnaryExpression ''!'' (BinaryExpression op l r))"
| "negateOperand (LogicalExpression op l r) =
     UnaryExpression ''!''
       (LogicalExpression (getNegatedLogicalOperator op) (negateOperand l) (negateOperand r))"
| "negateOperand (UnaryExpression op x) =
     (if op = ''!'' then x else UnaryExpression ''!'' (UnaryExpression op x))"
| "negateOperand x = UnaryExpression ''!'' x"

fun simplifyBack :: "expr \<Rightarrow> expr" where
  "simplifyBack (LogicalExpression op l r) =
     LogicalExpression (getNegatedLogicalOperator op) (negateOperand l) (negateOperand r)"
| "simplifyBack (BinaryExpression op l r) =
     (case map_of oppositeOperators op of
        Some op' \<Rightarrow> BinaryExpression op' l r
      | None \<Rightarrow> BinaryExpression op l r)"
| "simplifyBack x = x"

fun negate :: "expr \<Rightarrow> expr" where
  "negate (BinaryExpression op l r) =
     (case map_of oppositeOperators op of
        Some op' \<Rightarrow> UnaryExpression ''!'' (BinaryExpression op' l r)
      | None \<Rightarrow> UnaryExpression ''!'' (BinaryExpression op l r))"
| "negate (UnaryExpression op x) =
     (if op = ''!'' then simplifyBack x else UnaryExpression ''!'' (UnaryExpression op x))"
| "negate e = negateOperand e"

text \<open>
  A node of the parsed code with its source range: the range, the expression the
  node stands for, and its child nodes in source order.
\<close>

datatype located = Located Selection expr "located list"

fun locOf :: "located \<Rightarrow> Selection" where
  "locOf (Located loc e children) = loc"

fun exprOf :: "located \<Rightarrow> expr" where
  "exprOf (Located loc e children) = e"

text \<open>
  Modelled from the spec: \<^verbatim>\<open>findNegatableExpression\<close> (\<^verbatim>\<open>negate-expression.ts\<close> is not among
  the sources). The target is the innermost negatable expression that holds the
  selection: a comparison (an operator of the table), a logical expression, or a
  negation \<^verbatim>\<open>!(...)\<close>. An identifier or a negated identifier is no target of its
  own, so a cursor on one selects the logical expression around it; the expression
  directly under a \<^verbatim>\<open>!\<close> is no target either, the negation is.
\<close>

fun isNegatable :: "expr \<Rightarrow> bool" where
  "isNegatable (UnaryExpression op x) = (op = ''!'' \<and> \<not> isIdentifierOrMember x)"
| "isNegatable (LogicalExpression op l r) = True"
| "isNegatable (BinaryExpression op l r) = (map_of oppositeOperators op \<noteq> None)"
| "isNegatable _ = False"

fun isNegation :: "expr option \<Rightarrow> bool" where
  "isNegation (Some (UnaryExpression op x)) = (op = ''!'')"
| "isNegation _ = False"

fun findNegatable :: "Selection \<Rightarrow> expr option \<Rightarrow> located \<Rightarrow> located option"
  and findNegatableIn :: "Selection \<Rightarrow> expr option \<Rightarrow> located list \<Rightarrow> located option" where
  "findNegatable sel parent (Located loc e children) =
     (if \<not> isInsidePath sel loc then None
      else case findNegatableIn sel (Some e) children of
             Some inner \<Rightarrow> Some inner
           | None \<Rightarrow>
               (if isNegatable e \<and> \<not> isNegation parent then Some (Located loc e children)
                else None))"
| "findNegatableIn sel parent [] = None"
| "findNegatableIn sel parent (c # cs) =
     (case findNegatable sel parent c of
        Some inner \<Rightarrow> Some inner
      | None \<Rightarrow> findNegatableIn sel parent cs)"

definition findNegatableExpression :: "located \<Rightarrow> Selection \<Rightarrow> located option" where
  "findNegatableExpression root sel = findNegatable sel None root"


text \<open>
  The host as \<^verbatim>\<open>negateExpression\<close> sees it: the calls of \<^verbatim>\<open>readThenWrite\<close>, each with
  its selection and the updates computed from the code that was read, and the
  reasons given to \<^verbatim>\<open>showErrorMessage\<close>. An update carries the rewritten expression
  (the source prints it) and the range it replaces.
\<close>

datatype Update = Update expr Selection

record NegateHost =
  edits :: "(Selection \<times> Update list) list"
  notifications :: "ErrorReason list"

definition showErrorMessage :: "ErrorReason \<Rightarrow> NegateHost \<Rightarrow> NegateHost" where
  "showErrorMessage reason host = host\<lparr>notifications := notifications host @ [reason]\<rparr>"

definition readThenWriteUpdates ::
  "Selection \<Rightarrow> (expr \<Rightarrow> Update list) \<Rightarrow> expr \<Rightarrow> NegateHost \<Rightarrow> NegateHost" where
  "readThenWriteUpdates sel getUpdates readCode host =
     host\<lparr>edits := edits host @ [(sel, getUpdates readCode)]\<rparr>"

text \<open>
  Modelled from the spec: \<^verbatim>\<open>negateExpression(code, selection, readThenWrite,
  showErrorMessage)\<close> (\<^verbatim>\<open>negate-expression.ts\<close> is not among the sources). Without a
  target it reports \<open>DidNotFoundNegatableExpression\<close>; with one it calls
  \<^verbatim>\<open>readThenWrite\<close> on the target's range, and the update replaces that range by the
  negation of the code read there.
\<close>

definition negateExpression :: "located \<Rightarrow> Selection \<Rightarrow> NegateHost \<Rightarrow> NegateHost" where
  "negateExpression root sel host =
     (case findNegatableExpression root sel of
        None \<Rightarrow> showErrorMessage DidNotFoundNegatableExpression host
      | Some (Located loc e children) \<Rightarrow>
          readThenWriteUpdates loc (\<lambda>readCode. [Update (negate readCode) loc]) e host)"

text \<open>
  The code of the tests, as located trees of the expression at character 4 of
  \<^verbatim>\<open>if (...) {}\<close>: \<^verbatim>\<open>a == b || b == c\<close>, \<^verbatim>\<open>isValid || b == c\<close> and
  \<^verbatim>\<open>!isValid || b == c\<close>; and \<^verbatim>\<open>console.log("Nothing to negate here!")\<close>.
\<close>

definition ident :: "nat \<Rightarrow> nat \<Rightarrow> string \<Rightarrow> located" where
  "ident from to name = Located (Selection (Position 0 from) (Position 0 to)) (Identifier name) []"

definition comparison :: "nat \<Rightarrow> string \<Rightarrow> string \<Rightarrow> string \<Rightarrow> located" where
  "comparison from x op y =
     Located (Selection (Position 0 from) (Position 0 (from + length x + length op + length y + 2)))
       (BinaryExpression op (Identifier x) (Identifier y))
       [ident from (from + length x) x,
        ident (from + length x + length op + 2) (from + length x + length op + length y + 2) y]"

definition aEqBOrBEqC :: located where
  "aEqBOrBEqC =
     Located (Selection (Position 0 4) (Position 0 20))
       (LogicalExpression ''||''
          (BinaryExpression ''=='' (Identifier ''a'') (Identifier ''b''))
          (BinaryExpression ''=='' (Identifier ''b'') (Identifier ''c'')))
       [comparison 4 ''a'' ''=='' ''b'', comparison 14 ''b'' ''=='' ''c'']"




definition consoleLog :: located where
  "consoleLog =
     Located (Selection (Position 0 0) (Position 0 38))
       (CallExpression (MemberExpression (Identifier ''console'') ''log'')
          [StringLiteral ''Nothing to negate here!''])
       [Located (Selection (Position 0 0) (Position 0 11))
          (MemberExpression (Identifier ''console'') ''log'')
          [ident 0 7 ''console'', ident 8 11 ''log''],
        Located (Selection (Position 0 12) (Position 0 37))
          (StringLiteral ''Nothing to negate here!'') []]"

definition emptyHost :: NegateHost where
  "emptyHost = \<lparr>edits = [], notifications = []\<rparr>"


fun leadingNegations :: "expr \<Rightarrow> nat" where
  "leadingNegations (UnaryExpression op x) = (if op = ''!'' then Suc (leadingNegations x) else 0)"
| "leadingNegations _ = 0"









section \<open>Properties of the traversals\<close>

lemma ifsOfList_append: "ifsOfList (xs @ ys) = ifsOfList xs \<union> ifsOfList ys"
  by (induction xs) auto

lemma ifs_getStatements: "ifsOfList (getStatements s) = ifs s"
  by (cases s) auto

lemma ifs_toSlot: "ifs (toSlot v) = ifsOfList (toList v)"
  by (cases v) auto

lemma ifs_toAlternate:
  "(case toAlternate v of None \<Rightarrow> {} | Some s \<Rightarrow> ifs s) = ifsOfList (toList v)"
  by (cases v) auto

lemma ifs_IfStatement:
  "ifs (IfStatement loc t c a) = insert (loc, t) (ifs c \<union> (case a of None \<Rightarrow> {} | Some s \<Rightarrow> ifs s))"
  by (cases a) auto

lemma ifsBelow_IfStatement:
  "ifsBelow (IfStatement loc t c a) = ifs c \<union> (case a of None \<Rightarrow> {} | Some s \<Rightarrow> ifs s)"
  by (cases a) auto

lemma ifsBelow_subset: "ifsBelow s \<subseteq> ifs s"
  by (cases s) (auto simp: ifs_IfStatement ifsBelow_IfStatement)

lemma mutation_ifs:
  "removeDeadCodeFromNestedIf A g t c a = Some (ReplaceWithMultiple ss) \<Longrightarrow>
   ifsOfList ss \<subseteq> ifsBelow (IfStatement loc t c a)"
  by (auto simp: removeDeadCodeFromNestedIf_def replaceWithAlternate_def
      replaceWithConsequent_def replaceWithBodyOf_def ifs_getStatements ifsBelow_IfStatement
      split: if_splits option.splits)

lemma nested_ifs_subset:
  "ifsOfList (toList (node (nestedVisit A g s))) \<subseteq> ifs s"
  "ifs (node (nestedChildren A g s)) \<subseteq> ifs s \<and>
   ifsBelow (node (nestedChildren A g s)) \<subseteq> ifsBelow s"
  "ifsOfList (node (nestedList A g ss)) \<subseteq> ifsOfList ss"
proof (induction A g s and A g s and A g ss rule: nestedVisit_nestedChildren_nestedList.induct)
  case (1 A g loc t c a)
  show ?case
  proof (cases "removeDeadCodeFromNestedIf A g t c a")
    case None
    with 1 show ?thesis by (simp add: Let_def)
  next
    case (Some m)
    show ?thesis
    proof (cases m)
      case (ReplaceWithMultiple ss)
      from 1 Some ReplaceWithMultiple
      have "ifsOfList (node (nestedList A g ss)) \<subseteq> ifsOfList ss" by blast
      with Some ReplaceWithMultiple mutation_ifs[of A g t c a ss loc]
        ifsBelow_subset[of "IfStatement loc t c a"]
      show ?thesis by (auto simp add: Let_def)
    next
      case Remove
      with Some show ?thesis by simp
    qed
  qed
next
  case (5 A g loc t c)
  then show ?case by (auto simp add: Let_def ifs_toSlot)
next
  case (6 A g loc t c a)
  then show ?case
    using ifs_toAlternate[of "node (nestedVisit A g a)"]
    by (auto simp add: Let_def ifs_toSlot ifs_IfStatement ifsBelow_IfStatement)
next
  case (9 A g s rest)
  then show ?case by (auto simp add: Let_def ifsOfList_append)
qed (auto simp add: Let_def ifs_toSlot)



lemma undecided_Un: "undecided A g (X \<union> Y) = (undecided A g X \<and> undecided A g Y)"
  by (auto simp: undecided_def)

lemma undecided_insert:
  "undecided A g (insert (loc, t) X) =
     (\<not> areOpposite A g t \<and> \<not> areEqual A g t \<and> undecided A g X)"
  by (auto simp: undecided_def)








lemma ifs_traverseAlternate:
  "(case node (traverseAlternate A g a) of None \<Rightarrow> {} | Some s \<Rightarrow> ifs s)
     \<subseteq> (case a of None \<Rightarrow> {} | Some s \<Rightarrow> ifs s)"
  using nested_ifs_subset(2) by (cases a) (simp_all add: traverseAlternate_def Let_def)

lemma ifs_after_nested:
  "ifs (IfStatement loc t (node (nestedChildren A g c)) (node (traverseAlternate A g' a)))
     \<subseteq> ifs (IfStatement loc t c a)"
  using nested_ifs_subset(2)[of A g c] ifs_traverseAlternate[of A g' a]
  by (auto simp: ifs_IfStatement)









lemma set_oppositeOperatorCalls:
  "op \<in> set (oppositeOperatorCalls test n) \<Longrightarrow> \<exists>l r. test = BinaryExpression op l r"
  by (cases test) auto

lemma undecidedOperators_mono:
  "X \<subseteq> Y \<Longrightarrow> undecidedOperators A sel X \<subseteq> undecidedOperators A sel Y"
  unfolding undecidedOperators_def by blast

lemma undecidedOperators_Un:
  "undecidedOperators A sel (X \<union> Y) = undecidedOperators A sel X \<union> undecidedOperators A sel Y"
  unfolding undecidedOperators_def by blast

lemma visit_flipped:
  "set (flipped (visit A sel s)) \<subseteq> undecidedOperators A sel (ifs s)"
  "set (flipped (visitChildren A sel s)) \<subseteq> undecidedOperators A sel (ifs s)"
  "set (flipped (visitList A sel ss)) \<subseteq> undecidedOperators A sel (ifsOfList ss)"
proof (induction A sel s and A sel s and A sel ss rule: visit_visitChildren_visitList.induct)
  case (1 A sel loc test c a)
  show ?case
  proof (cases "isInsidePath sel loc \<and> \<not> isFalsy A test \<and> \<not> isTruthy A test")
    case False
    have "\<not> isInsidePath sel loc \<Longrightarrow> updateCodeVisitor A sel loc test c a = Return"
      by (simp add: updateCodeVisitor_def)
    with 1 False show ?thesis by (auto simp: Let_def)
  next
    case True
    let ?s' = "IfStatement loc test (node (nestedChildren A (Condition test) c))
                 (node (traverseAlternate A (oppositeTest A test) a))"
    from True have "updateCodeVisitor A sel loc test c a
                = TraverseBranches (Condition test) (oppositeTest A test)"
      by (simp add: updateCodeVisitor_def)
    with 1 have "set (flipped (visitChildren A sel ?s')) \<subseteq> undecidedOperators A sel (ifs ?s')"
      by blast
    with undecidedOperators_mono[OF ifs_after_nested[of loc test A "Condition test" c "oppositeTest A test" a]]
    have rest: "set (flipped (visitChildren A sel ?s'))
                  \<subseteq> undecidedOperators A sel (ifs (IfStatement loc test c a))"
      by blast
    have "set (oppositeOperatorCalls test n) \<subseteq> undecidedOperators A sel (ifs (IfStatement loc test c a))" for n
    proof
      fix op assume "op \<in> set (oppositeOperatorCalls test n)"
      then obtain l r where t: "test = BinaryExpression op l r"
        using set_oppositeOperatorCalls by blast
      then have "(loc, BinaryExpression op l r) \<in> ifs (IfStatement loc test c a)"
        by (simp add: ifs_IfStatement)
      with True t show "op \<in> undecidedOperators A sel (ifs (IfStatement loc test c a))"
        unfolding undecidedOperators_def by blast
    qed
    with rest True show ?thesis by (simp add: Let_def del: visitChildren.simps)
  qed
next
  case (5 A sel loc test c)
  then show ?case
    using undecidedOperators_mono[of "ifs c" "ifs (IfStatement loc test c None)" A sel]
    by (auto simp: Let_def)
next
  case (6 A sel loc test c a)
  then show ?case
    using undecidedOperators_mono[of "ifs c" "ifs (IfStatement loc test c (Some a))" A sel]
      undecidedOperators_mono[of "ifs a" "ifs (IfStatement loc test c (Some a))" A sel]
    by (auto simp: Let_def)
next
  case (9 A sel s rest)
  then show ?case by (auto simp: Let_def undecidedOperators_Un)
qed (auto simp: Let_def)




lemma nestedProgram_visited:
  "visit specAst (cursorAt 0 0)
     (IfStatement (Selection (Position 0 0) (Position 9 1)) nestedTest
        nestedConsequent (Some nestedAlternate)) =
     \<lparr>tree =
        Kept (IfStatement (Selection (Position 0 0) (Position 9 1)) nestedTest
           (BlockStatement [stmtY, stmtX])
           (Some (BlockStatement
              [stmtX,
               IfStatement (Selection (Position 7 2) (Position 7 30)) (Identifier ''c'')
                 (BlockStatement [stmtX]) None]))),
      changed = True, stopped = False, flipped = [''=='', ''=='', ''=='']\<rparr>"
  by (simp add: nestedTest_def nestedConsequent_def nestedAlternate_def cursorAt_def specAst_def
      isInsidePath_def positionLe_def traverseAlternate_def oppositeTest_def
      getOppositeOperator_def oppositeOperators_def removeDeadCodeFromNestedIf_def Let_def
      replaceWithAlternate_def replaceWithConsequent_def replaceWithBodyOf_def isNegationOf_def
      stmtX_def stmtY_def)

lemma nestedProgram_traversed:
  "visitList specAst (cursorAt 0 0) nestedProgram =
     \<lparr>tree =
        [IfStatement (Selection (Position 0 0) (Position 9 1)) nestedTest
           (BlockStatement [stmtY, stmtX])
           (Some (BlockStatement
              [stmtX,
               IfStatement (Selection (Position 7 2) (Position 7 30)) (Identifier ''c'')
                 (BlockStatement [stmtX]) None]))],
      changed = True, stopped = False, flipped = [''=='', ''=='', ''=='']\<rparr>"
  by (simp add: nestedProgram_def nestedProgram_visited Let_def del: visit_IfStatement One_nat_def)

lemma arithmeticProgram_traversed:
  "visitList specAst (cursorAt 0 0) arithmeticProgram =
     \<lparr>tree = arithmeticProgram, changed = False, stopped = False, flipped = [''+'']\<rparr>"
  by (simp add: arithmeticProgram_def cursorAt_def specAst_def
      isInsidePath_def positionLe_def traverseAlternate_def oppositeTest_def
      getOppositeOperator_def oppositeOperators_def removeDeadCodeFromNestedIf_def Let_def)


lemma aEqBOrBEqC_at_operator:
  "findNegatableExpression aEqBOrBEqC (cursorAt 0 12) = Some aEqBOrBEqC"
  by (simp add: findNegatableExpression_def aEqBOrBEqC_def comparison_def ident_def cursorAt_def
      isInsidePath_def positionLe_def oppositeOperators_def)

lemma negate_agrees_with_the_tests:
  "negate (BinaryExpression ''=='' (Identifier ''a'') (Identifier ''b''))
     = UnaryExpression ''!'' (BinaryExpression ''!='' (Identifier ''a'') (Identifier ''b''))"
  "negate (BinaryExpression ''==='' (Identifier ''a'') (Identifier ''b''))
     = UnaryExpression ''!'' (BinaryExpression ''!=='' (Identifier ''a'') (Identifier ''b''))"
  "negate (BinaryExpression ''!='' (Identifier ''a'') (Identifier ''b''))
     = UnaryExpression ''!'' (BinaryExpression ''=='' (Identifier ''a'') (Identifier ''b''))"
  "negate (BinaryExpression ''!=='' (Identifier ''a'') (Identifier ''b''))
     = UnaryExpression ''!'' (BinaryExpression ''==='' (Identifier ''a'') (Identifier ''b''))"
  "negate (BinaryExpression ''<'' (Identifier ''a'') (Identifier ''b''))
     = UnaryExpression ''!'' (BinaryExpression ''>='' (Identifier ''a'') (Identifier ''b''))"
  "negate (BinaryExpression ''<='' (Identifier ''a'') (Identifier ''b''))
     = UnaryExpression ''!'' (BinaryExpression ''>'' (Identifier ''a'') (Identifier ''b''))"
  "negate (BinaryExpression ''>'' (Identifier ''a'') (Identifier ''b''))
     = UnaryExpression ''!'' (BinaryExpression ''<='' (Identifier ''a'') (Identifier ''b''))"
  "negate (BinaryExpression ''>='' (Identifier ''a'') (Identifier ''b''))
     = UnaryExpression ''!'' (BinaryExpression ''<'' (Identifier ''a'') (Identifier ''b''))"
  "negate (UnaryExpression ''!'' (LogicalExpression ''&&''
        (BinaryExpression ''!='' (Identifier ''a'') (Identifier ''b''))
        (BinaryExpression ''!='' (Identifier ''b'') (Identifier ''c''))))
     = LogicalExpression ''||''
        (BinaryExpression ''=='' (Identifier ''a'') (Identifier ''b''))
        (BinaryExpression ''=='' (Identifier ''b'') (Identifier ''c''))"
  "negate (LogicalExpression ''||'' (Identifier ''isValid'') (Identifier ''isCorrect''))
     = UnaryExpression ''!'' (LogicalExpression ''&&''
        (UnaryExpression ''!'' (Identifier ''isValid''))
        (UnaryExpression ''!'' (Identifier ''isCorrect'')))"
  "negate (LogicalExpression ''||'' (UnaryExpression ''!'' (Identifier ''isValid''))
        (Identifier ''isCorrect''))
     = UnaryExpression ''!'' (LogicalExpression ''&&'' (Identifier ''isValid'')
        (UnaryExpression ''!'' (Identifier ''isCorrect'')))"
  "negate (BinaryExpression ''>'' (BinaryExpression ''+'' (Identifier ''a'') (Identifier ''b''))
        (NumericLiteral 0))
     = UnaryExpression ''!'' (BinaryExpression ''<=''
        (BinaryExpression ''+'' (Identifier ''a'') (Identifier ''b'')) (NumericLiteral 0))"
  "negate (BinaryExpression ''===''
        (UnaryExpression ''typeof'' (MemberExpression (Identifier ''location'') ''lat''))
        (StringLiteral ''number''))
     = UnaryExpression ''!'' (BinaryExpression ''!==''
        (UnaryExpression ''typeof'' (MemberExpression (Identifier ''location'') ''lat''))
        (StringLiteral ''number''))"
  by (simp_all add: oppositeOperators_def getNegatedLogicalOperator_def)

lemma quiet_empty: "quiet sel {}"
  by (simp add: quiet_def)

lemma quiet_Un: "quiet sel (X \<union> Y) = (quiet sel X \<and> quiet sel Y)"
  by (auto simp: quiet_def)

lemma quiet_insert: "quiet sel (insert (loc, t) X) = (\<not> isInsidePath sel loc \<and> quiet sel X)"
  by (auto simp: quiet_def)


lemma quiet_visit:
  "quiet sel (ifs s) \<Longrightarrow>
     visit A sel s = \<lparr>tree = Kept s, changed = False, stopped = False, flipped = []\<rparr>"
  "quiet sel (ifs s) \<Longrightarrow>
     visitChildren A sel s = \<lparr>tree = s, changed = False, stopped = False, flipped = []\<rparr>"
  "quiet sel (ifsOfList ss) \<Longrightarrow>
     visitList A sel ss = \<lparr>tree = ss, changed = False, stopped = False, flipped = []\<rparr>"
proof (induction A sel s and A sel s and A sel ss rule: visit_visitChildren_visitList.induct)
  case (1 A sel loc test c a)
  from 1(3) have out: "\<not> isInsidePath sel loc"
    by (simp add: ifs_IfStatement quiet_insert)
  then have "updateCodeVisitor A sel loc test c a = Return"
    by (simp add: updateCodeVisitor_def)
  with 1 out show ?case by (simp add: Let_def del: visitChildren.simps)
next
  case (5 A sel loc test c)
  then show ?case by (simp add: Let_def quiet_insert del: visit_IfStatement)
next
  case (6 A sel loc test c a)
  then show ?case by (simp add: Let_def quiet_insert quiet_Un del: visit_IfStatement)
next
  case (9 A sel s rest)
  then show ?case by (simp add: Let_def quiet_Un del: visit_IfStatement)
qed (simp_all add: Let_def del: visit_IfStatement)

lemma undecided_nested:
  "undecided A g (ifs s) \<Longrightarrow> node (nestedVisit A g s) = Kept s \<and> \<not> replaced (nestedVisit A g s)"
  "undecided A g (ifsBelow s) \<Longrightarrow>
     node (nestedChildren A g s) = s \<and> \<not> replaced (nestedChildren A g s)"
  "undecided A g (ifsOfList ss) \<Longrightarrow>
     node (nestedList A g ss) = ss \<and> \<not> replaced (nestedList A g ss)"
proof (induction A g s and A g s and A g ss rule: nestedVisit_nestedChildren_nestedList.induct)
  case (1 A g loc t c a)
  from 1(3) have und: "\<not> areOpposite A g t \<and> \<not> areEqual A g t"
    and below: "undecided A g (ifsBelow (IfStatement loc t c a))"
    by (simp_all add: ifs_IfStatement ifsBelow_IfStatement undecided_insert)
  from und have "removeDeadCodeFromNestedIf A g t c a = None"
    by (simp add: removeDeadCodeFromNestedIf_def)
  then have none: "removeDeadCodeFromNestedIf A g t c a = None" .
  from 1(1)[OF none below] none show ?case by (simp add: Let_def del: nestedChildren.simps)
next
  case (5 A g loc t c)
  then show ?case by (simp add: Let_def)
next
  case (6 A g loc t c a)
  then show ?case by (simp add: Let_def undecided_Un)
next
  case (9 A g s rest)
  then show ?case by (simp add: Let_def undecided_Un)
qed (simp_all add: Let_def)


lemma traverseAlternate_untouched:
  "undecided A g (case a of None \<Rightarrow> {} | Some s \<Rightarrow> ifsBelow s) \<Longrightarrow>
     node (traverseAlternate A g a) = a \<and> \<not> replaced (traverseAlternate A g a)"
  using undecided_nested(2) by (cases a) (simp_all add: traverseAlternate_def Let_def)

lemma visit_passed_if:
  assumes "passes A sel loc t c a"
  shows "tree (visit A sel (IfStatement loc t c a))
           = Kept (tree (visitChildren A sel (IfStatement loc t c a)))
         \<and> changed (visit A sel (IfStatement loc t c a))
           = changed (visitChildren A sel (IfStatement loc t c a))
         \<and> stopped (visit A sel (IfStatement loc t c a))
           = stopped (visitChildren A sel (IfStatement loc t c a))"
proof (cases "isInsidePath sel loc")
  case False
  then show ?thesis by (simp add: Let_def del: visitChildren.simps)
next
  case True
  with assms have und: "\<not> isFalsy A t" "\<not> isTruthy A t"
    and c: "undecided A (Condition t) (ifsBelow c)"
    and a: "undecided A (oppositeTest A t) (case a of None \<Rightarrow> {} | Some s \<Rightarrow> ifsBelow s)"
    by (simp_all add: passes_def)
  from True und undecided_nested(2)[OF c] traverseAlternate_untouched[OF a]
  show ?thesis by (simp add: Let_def del: visitChildren.simps)
qed

lemma fill_Kept:
  "toList (fill fs (Kept s)) = [toSlot (fill fs (Kept s))]"
  "toAlternate (fill fs (Kept s)) = Some (toSlot (fill fs (Kept s)))"
  by (cases fs; simp)+

lemma visitList_focus:
  "quiet sel (ifsOfList before) \<Longrightarrow>
   stopped (visit A sel x) \<or> quiet sel (ifsOfList after) \<Longrightarrow>
     tree (visitList A sel (before @ x # after)) = before @ toList (tree (visit A sel x)) @ after
     \<and> changed (visitList A sel (before @ x # after)) = changed (visit A sel x)
     \<and> stopped (visitList A sel (before @ x # after)) = stopped (visit A sel x)"
proof (induction before)
  case Nil
  then show ?case
    using quiet_visit(3)[of sel after A]
    by (auto simp add: Let_def simp del: visit_IfStatement)
next
  case (Cons b before)
  from Cons.prems(1) have b: "quiet sel (ifs b)" and rest: "quiet sel (ifsOfList before)"
    by (simp_all add: quiet_Un)
  from Cons.IH[OF rest Cons.prems(2)] quiet_visit(1)[OF b, of A]
  show ?case by (simp add: Let_def del: visit_IfStatement)
qed

lemma visit_fill:
  "reaches A sel fs s \<Longrightarrow> stopped (visit A sel s) \<or> restQuiet sel fs \<Longrightarrow>
     tree (visit A sel (toSlot (fill fs (Kept s)))) = fill fs (tree (visit A sel s))
     \<and> changed (visit A sel (toSlot (fill fs (Kept s)))) = changed (visit A sel s)
     \<and> stopped (visit A sel (toSlot (fill fs (Kept s)))) = stopped (visit A sel s)"
proof (induction fs)
  case Nil
  then show ?case by simp
next
  case (Cons f fs)
  let ?x = "toSlot (fill fs (Kept s))"
  let ?v = "tree (visit A sel s)"
  note kept = fill_Kept[of fs s]
  from Cons.prems(1) have r: "reaches A sel fs s" by (cases f) simp_all
  from Cons.prems(2) have q: "stopped (visit A sel s) \<or> restQuiet sel fs" by (cases f) auto
  note IH = Cons.IH[OF r q]
  show ?case
  proof (cases f)
    case (InBlock before after)
    with Cons.prems have b: "quiet sel (ifsOfList before)"
      and a: "stopped (visit A sel ?x) \<or> quiet sel (ifsOfList after)"
      using IH by auto
    from visitList_focus[OF b a] IH InBlock kept show ?thesis
      by (simp add: Let_def del: visit_IfStatement)
  next
    case (InLoop e)
    with IH kept show ?thesis by (simp add: Let_def del: visit_IfStatement)
  next
    case (InConsequent loc t a)
    with Cons.prems(1) have p: "passes A sel loc t ?x a" by simp
    from Cons.prems(2) InConsequent
    have rest: "stopped (visit A sel s) \<or> quiet sel (case a of None \<Rightarrow> {} | Some y \<Rightarrow> ifs y)"
      by auto
    have "tree (visitChildren A sel (IfStatement loc t ?x a))
            = IfStatement loc t (toSlot (fill fs ?v)) a
          \<and> changed (visitChildren A sel (IfStatement loc t ?x a)) = changed (visit A sel s)
          \<and> stopped (visitChildren A sel (IfStatement loc t ?x a)) = stopped (visit A sel s)"
    proof (cases a)
      case None
      with IH show ?thesis by (simp add: Let_def del: visit_IfStatement)
    next
      case (Some y)
      show ?thesis
      proof (cases "stopped (visit A sel s)")
        case True
        with IH Some show ?thesis by (simp add: Let_def del: visit_IfStatement)
      next
        case False
        with rest Some have "quiet sel (ifs y)" by simp
        from quiet_visit(1)[OF this, of A] IH Some False show ?thesis
          by (simp add: Let_def del: visit_IfStatement)
      qed
    qed
    with visit_passed_if[OF p] InConsequent kept show ?thesis
      by (simp del: visit_IfStatement visitChildren.simps)
  next
    case (InAlternate loc t c)
    with Cons.prems(1) have p: "passes A sel loc t c (Some ?x)" and qc: "quiet sel (ifs c)"
      by simp_all
    from quiet_visit(1)[OF qc, of A] IH
    have "tree (visitChildren A sel (IfStatement loc t c (Some ?x)))
            = IfStatement loc t c (toAlternate (fill fs ?v))
          \<and> changed (visitChildren A sel (IfStatement loc t c (Some ?x))) = changed (visit A sel s)
          \<and> stopped (visitChildren A sel (IfStatement loc t c (Some ?x))) = stopped (visit A sel s)"
      by (simp add: Let_def del: visit_IfStatement)
    with visit_passed_if[OF p] InAlternate kept show ?thesis
      by (simp del: visit_IfStatement visitChildren.simps)
  qed
qed

lemma updateCode_place:
  assumes "quiet sel (ifsOfList before)" and "reaches A sel fs s"
    and "stopped (visit A sel s) \<or> (restQuiet sel fs \<and> quiet sel (ifsOfList after))"
  shows "updateCode A (place before fs (Kept s) after) sel
           = \<lparr>Transformed.code = place before fs (tree (visit A sel s)) after,
              hasCodeChanged = changed (visit A sel s)\<rparr>"
proof -
  let ?x = "toSlot (fill fs (Kept s))"
  from assms(3) have q: "stopped (visit A sel s) \<or> restQuiet sel fs" by blast
  note inner = visit_fill[OF assms(2) q]
  with assms(3) have "stopped (visit A sel ?x) \<or> quiet sel (ifsOfList after)" by blast
  from visitList_focus[OF assms(1) this] inner
  have "tree (visitList A sel (before @ ?x # after))
          = before @ toList (fill fs (tree (visit A sel s))) @ after
        \<and> changed (visitList A sel (before @ ?x # after)) = changed (visit A sel s)"
    by simp
  moreover have "place before fs (Kept s) after = before @ ?x # after"
    by (simp add: place_def fill_Kept)
  ultimately show ?thesis by (simp add: updateCode_def place_def Let_def)
qed











section \<open>The error messages\<close>

text \<open>
  C10. The mapping from error reasons to messages gives its specific message for
  \<open>DidNotFoundExtractableCode\<close> only. Every other reason, among them
  \<open>DidNotFoundNegatableExpression\<close> and \<open>DidNotFoundDeadCode\<close>, gets the generic
  apology, which is a different text.
\<close>

theorem toString_specific_only_for_extractable:
  "(toString reason
      = ''I didn't found a valid code to extract from current selection '' @ thinkingFace)
     = (reason = DidNotFoundExtractableCode)
   \<and> (reason \<noteq> DidNotFoundExtractableCode \<longrightarrow> toString reason = genericMessage)
   \<and> toString DidNotFoundNegatableExpression = genericMessage
   \<and> toString DidNotFoundDeadCode = genericMessage
   \<and> genericMessage
       = ''I'm so'' @ ''rry, something went wrong but I'm not sure what '' @ grinningFaceWithSweat"
  by (cases reason) (simp_all add: extractableCodeMessage_def genericMessage_def
        thinkingFace_def grinningFaceWithSweat_def)

theorem toString_specific_only_for_extractable_witness:
  "OtherReason 0 \<noteq> DidNotFoundExtractableCode
   \<and> toString (OtherReason 0) = genericMessage
   \<and> toString (OtherReason 0)
       \<noteq> ''I didn't found a valid code to extract from current selection '' @ thinkingFace"
  using toString_specific_only_for_extractable [of "OtherReason 0"] by simp


section \<open>Coordinates of the modifications in readThenWrite\<close>

text \<open>
  C1, as the specification states it, fails: a modification whose selection is
  relative to the fragment that was read is not moved to the document. For the
  fragment at characters 4 to 10 and a modification at the fragment's characters
  0 to 6, the edit is applied at characters 0 to 6 of the document, not at 4 to 10.
\<close>

theorem readThenWrite_no_translation_counterexample:
  "applied (readThenWrite (Selection (Position 0 4) (Position 0 10))
              localModifications None sampleEditor)
     = [[TextEdit (Range (VSCodePosition 0 0) (VSCodePosition 0 6)) ''!(a != b)'']]
   \<and> applied (readThenWrite (Selection (Position 0 4) (Position 0 10))
              localModifications None sampleEditor)
     \<noteq> [map (translatedTextEdit (Position 0 4)) (localModifications ''a == b'')]"
  by (simp add: readThenWrite_def sampleEditor_def localModifications_def toTextEdit_def
      toVSCodePosition_def translatedTextEdit_def localToAbsolute_def)

text \<open>
  C1, amended. \<open>readThenWrite\<close> hands the text of the selection to
  \<open>getModifications\<close> and applies, as one edit, each returned modification at
  exactly the range its selection names: the selections are document coordinates
  and the host does not translate them. So the edits depend on the selection that
  was read only through the text that was read.
\<close>

theorem readThenWrite_applies_selections_unchanged:
  "applied (readThenWrite sel getModifications newCursorPosition ed)
     = applied ed @
       [map (\<lambda>m. TextEdit (Range (VSCodePosition (line (start (selection m)))
                                                  (character (start (selection m))))
                                  (VSCodePosition (line (end' (selection m)))
                                                  (character (end' (selection m)))))
                           (Modification.code m))
            (getModifications
               (getText ed (Range (VSCodePosition (line (start sel)) (character (start sel)))
                                  (VSCodePosition (line (end' sel)) (character (end' sel))))))]
   \<and> (getModifications (getText ed (Range (toVSCodePosition (start sel))
                                           (toVSCodePosition (end' sel))))
        = getModifications (getText ed (Range (toVSCodePosition (start sel'))
                                              (toVSCodePosition (end' sel')))) \<longrightarrow>
      applied (readThenWrite sel getModifications newCursorPosition ed)
        = applied (readThenWrite sel' getModifications newCursorPosition ed))"
  by (cases newCursorPosition)
     (simp_all add: readThenWrite_def toTextEdit_def toVSCodePosition_def Let_def)

theorem readThenWrite_applies_selections_unchanged_witness:
  "applied (readThenWrite (Selection (Position 0 4) (Position 0 10))
              absoluteModifications None sampleEditor)
     = [[TextEdit (Range (VSCodePosition 0 4) (VSCodePosition 0 10)) ''!(a != b)'']]
   \<and> applied (readThenWrite (Selection (Position 0 4) (Position 0 10))
              absoluteModifications None sampleEditor)
     = applied (readThenWrite (Selection (Position 0 0) (Position 0 14))
              absoluteModifications None sampleEditor)"
proof -
  note t = readThenWrite_applies_selections_unchanged
          [where getModifications = absoluteModifications and ed = sampleEditor
             and sel = "Selection (Position 0 4) (Position 0 10)"
             and sel' = "Selection (Position 0 0) (Position 0 14)"
             and newCursorPosition = None]
  have same: "absoluteModifications
                (getText sampleEditor
                   (Range (toVSCodePosition (start (Selection (Position 0 4) (Position 0 10))))
                          (toVSCodePosition (end' (Selection (Position 0 4) (Position 0 10))))))
              = absoluteModifications
                (getText sampleEditor
                   (Range (toVSCodePosition (start (Selection (Position 0 0) (Position 0 14))))
                          (toVSCodePosition (end' (Selection (Position 0 0) (Position 0 14))))))"
    by (simp add: absoluteModifications_def)
  from t have "applied (readThenWrite (Selection (Position 0 4) (Position 0 10))
              absoluteModifications None sampleEditor)
     = [[TextEdit (Range (VSCodePosition 0 4) (VSCodePosition 0 10)) ''!(a != b)'']]"
    by (simp add: sampleEditor_def absoluteModifications_def)
  moreover from t same have "applied (readThenWrite (Selection (Position 0 4) (Position 0 10))
              absoluteModifications None sampleEditor)
     = applied (readThenWrite (Selection (Position 0 0) (Position 0 14))
              absoluteModifications None sampleEditor)"
    by blast
  ultimately show ?thesis by blast
qed


section \<open>Dead-code removal: the operators handed to getOppositeOperator\<close>

text \<open>
  C2, as the specification states it, fails: \<^verbatim>\<open>getOppositeOperator\<close> does receive an
  operator outside the eight comparison operators. For
  \<^verbatim>\<open>if (a + b) {} else { if (c) {} }\<close> with the cursor on the outer \<^verbatim>\<open>if\<close>, the test
  is a binary expression, so the visitor of the alternate passes \<^verbatim>\<open>+\<close>, which the
  table does not hold.
\<close>

theorem opposite_operator_receives_arithmetic_counterexample:
  "oppositeOperatorArguments specAst arithmeticProgram (cursorAt 0 0) = [''+'']
   \<and> ''+'' \<notin> set [''=='', ''!='', ''==='', ''!=='', ''<'', ''<='', ''>'', ''>='']
   \<and> map_of oppositeOperators ''+'' = None"
  by (simp add: oppositeOperatorArguments_def arithmeticProgram_def cursorAt_def specAst_def
      isInsidePath_def positionLe_def traverseAlternate_def oppositeTest_def
      getOppositeOperator_def oppositeOperators_def removeDeadCodeFromNestedIf_def Let_def)

text \<open>
  C2, amended. \<open>removeDeadCode\<close> always ends with one of its two reports, a write or
  \<open>showError DidNotFoundDeadCode\<close>. The operators \<^verbatim>\<open>getOppositeOperator\<close> receives
  are operators of binary-expression tests, of \<^verbatim>\<open>if\<close> statements of the program that
  hold the selection and are neither falsy nor truthy: any binary operator, in the
  table or not.
\<close>

theorem opposite_operator_arguments_are_undecided_binary_tests:
  "(\<forall>op \<in> set (oppositeOperatorArguments A program sel).
      \<exists>loc l r. (loc, BinaryExpression op l r) \<in> ifsOfList program
        \<and> isInsidePath sel loc
        \<and> \<not> isFalsy A (BinaryExpression op l r)
        \<and> \<not> isTruthy A (BinaryExpression op l r))
   \<and> (removeDeadCode A program sel editor
          = editor\<lparr>written := written editor @ [Transformed.code (updateCode A program sel)]\<rparr>
        \<or> removeDeadCode A program sel editor
          = editor\<lparr>shownErrors := shownErrors editor @ [DidNotFoundDeadCode]\<rparr>)"
proof -
  have "set (oppositeOperatorArguments A program sel)
          \<subseteq> undecidedOperators A sel (ifsOfList program)"
    unfolding oppositeOperatorArguments_def by (rule visit_flipped(3))
  then have "\<forall>op \<in> set (oppositeOperatorArguments A program sel).
      \<exists>loc l r. (loc, BinaryExpression op l r) \<in> ifsOfList program
        \<and> isInsidePath sel loc
        \<and> \<not> isFalsy A (BinaryExpression op l r)
        \<and> \<not> isTruthy A (BinaryExpression op l r)"
    unfolding undecidedOperators_def by blast
  moreover have "removeDeadCode A program sel editor
          = editor\<lparr>written := written editor @ [Transformed.code (updateCode A program sel)]\<rparr>
        \<or> removeDeadCode A program sel editor
          = editor\<lparr>shownErrors := shownErrors editor @ [DidNotFoundDeadCode]\<rparr>"
    by (simp add: removeDeadCode_def editorWrite_def showError_def Let_def)
  ultimately show ?thesis by blast
qed

theorem opposite_operator_arguments_are_undecided_binary_tests_witness:
  "''=='' \<in> set (oppositeOperatorArguments specAst nestedProgram (cursorAt 0 0))
   \<and> (\<exists>loc l r. (loc, BinaryExpression ''=='' l r) \<in> ifsOfList nestedProgram
        \<and> isInsidePath (cursorAt 0 0) loc
        \<and> \<not> isFalsy specAst (BinaryExpression ''=='' l r)
        \<and> \<not> isTruthy specAst (BinaryExpression ''=='' l r))
   \<and> (removeDeadCode specAst nestedProgram (cursorAt 0 0) emptyEditor
          = emptyEditor\<lparr>written := written emptyEditor
               @ [Transformed.code (updateCode specAst nestedProgram (cursorAt 0 0))]\<rparr>
        \<or> removeDeadCode specAst nestedProgram (cursorAt 0 0) emptyEditor
          = emptyEditor\<lparr>shownErrors := shownErrors emptyEditor @ [DidNotFoundDeadCode]\<rparr>)"
proof -
  have mem: "''=='' \<in> set (oppositeOperatorArguments specAst nestedProgram (cursorAt 0 0))"
    by (simp add: oppositeOperatorArguments_def nestedProgram_traversed)
  with opposite_operator_arguments_are_undecided_binary_tests
         [of specAst nestedProgram "cursorAt 0 0" emptyEditor]
  show ?thesis by blast
qed


section \<open>Dead-code removal: the probe and the command\<close>

text \<open>
  C3. \<open>hasDeadCode\<close> is the \<open>hasCodeChanged\<close> flag of \<open>updateCode\<close>, and
  \<open>removeDeadCode\<close> writes exactly when that flag is set: the probe is true if and
  only if the command performs a write, and the write is the transformed code.
\<close>

theorem hasDeadCode_iff_removeDeadCode_writes:
  "hasDeadCode A program sel = hasCodeChanged (updateCode A program sel)
   \<and> (written (removeDeadCode A program sel editor) \<noteq> written editor)
       = hasDeadCode A program sel
   \<and> (written (removeDeadCode A program sel editor)
        = written editor @ [Transformed.code (updateCode A program sel)])
       = hasDeadCode A program sel"
  by (simp add: hasDeadCode_def removeDeadCode_def editorWrite_def showError_def Let_def)

theorem hasDeadCode_iff_removeDeadCode_writes_witness:
  "hasDeadCode specAst nestedProgram (cursorAt 0 0)
   \<and> written (removeDeadCode specAst nestedProgram (cursorAt 0 0) emptyEditor)
       \<noteq> written emptyEditor
   \<and> \<not> hasDeadCode specAst arithmeticProgram (cursorAt 0 0)
   \<and> written (removeDeadCode specAst arithmeticProgram (cursorAt 0 0) emptyEditor)
       = written emptyEditor"
proof -
  have yes: "hasCodeChanged (updateCode specAst nestedProgram (cursorAt 0 0))"
    by (simp add: updateCode_def nestedProgram_traversed)
  have no: "\<not> hasCodeChanged (updateCode specAst arithmeticProgram (cursorAt 0 0))"
    by (simp add: updateCode_def arithmeticProgram_traversed)
  from yes no
    hasDeadCode_iff_removeDeadCode_writes [of specAst nestedProgram "cursorAt 0 0" emptyEditor]
    hasDeadCode_iff_removeDeadCode_writes [of specAst arithmeticProgram "cursorAt 0 0" emptyEditor]
  show ?thesis by blast
qed

text \<open>
  C6. When the transformation changed the code, \<open>removeDeadCode\<close> performs exactly
  one write, of the transformed code, and shows no error. Otherwise it shows
  \<open>DidNotFoundDeadCode\<close> once and writes nothing.
\<close>

theorem removeDeadCode_writes_once_or_reports:
  "(hasCodeChanged (updateCode A program sel) \<longrightarrow>
      written (removeDeadCode A program sel editor)
        = written editor @ [Transformed.code (updateCode A program sel)]
      \<and> shownErrors (removeDeadCode A program sel editor) = shownErrors editor)
   \<and> (\<not> hasCodeChanged (updateCode A program sel) \<longrightarrow>
      written (removeDeadCode A program sel editor) = written editor
      \<and> shownErrors (removeDeadCode A program sel editor)
        = shownErrors editor @ [DidNotFoundDeadCode])"
  by (simp add: removeDeadCode_def editorWrite_def showError_def Let_def)

theorem removeDeadCode_writes_once_or_reports_witness:
  "hasCodeChanged (updateCode specAst nestedProgram (cursorAt 0 0))
   \<and> written (removeDeadCode specAst nestedProgram (cursorAt 0 0) emptyEditor)
       = [Transformed.code (updateCode specAst nestedProgram (cursorAt 0 0))]
   \<and> shownErrors (removeDeadCode specAst nestedProgram (cursorAt 0 0) emptyEditor) = []
   \<and> \<not> hasCodeChanged (updateCode specAst arithmeticProgram (cursorAt 0 0))
   \<and> written (removeDeadCode specAst arithmeticProgram (cursorAt 0 0) emptyEditor) = []
   \<and> shownErrors (removeDeadCode specAst arithmeticProgram (cursorAt 0 0) emptyEditor)
       = [DidNotFoundDeadCode]"
proof -
  have yes: "hasCodeChanged (updateCode specAst nestedProgram (cursorAt 0 0))"
    by (simp add: updateCode_def nestedProgram_traversed)
  have no: "\<not> hasCodeChanged (updateCode specAst arithmeticProgram (cursorAt 0 0))"
    by (simp add: updateCode_def arithmeticProgram_traversed)
  from yes no
    removeDeadCode_writes_once_or_reports [of specAst nestedProgram "cursorAt 0 0" emptyEditor]
    removeDeadCode_writes_once_or_reports [of specAst arithmeticProgram "cursorAt 0 0" emptyEditor]
  show ?thesis by (simp add: emptyEditor_def)
qed


section \<open>Dead-code removal: statically decided tests\<close>

text \<open>
  C5, as the specification states it, fails: not every \<^verbatim>\<open>if\<close> statement that holds the
  selection and has a falsy test is replaced by its alternate. In
  \<^verbatim>\<open>if (true) { if (false) { x() } else { y() } }\<close> followed by \<^verbatim>\<open>x()\<close>, with the cursor
  in the inner \<^verbatim>\<open>if\<close>, the outer \<^verbatim>\<open>if\<close> is replaced by the statements of its
  consequent and the visitor calls \<^verbatim>\<open>path.stop()\<close>: the inner \<^verbatim>\<open>if\<close>, whose test is
  falsy and which holds the cursor, is written as it was, not replaced by \<^verbatim>\<open>y()\<close>.
\<close>

theorem falsy_if_after_a_stop_stays_counterexample:
  "isInsidePath (cursorAt 1 4) (Selection (Position 1 2) (Position 1 33))
   \<and> isFalsy specAst (BooleanLiteral False)
   \<and> (Selection (Position 1 2) (Position 1 33), BooleanLiteral False) \<in> ifsOfList decidedProgram
   \<and> innerDecided
       = IfStatement (Selection (Position 1 2) (Position 1 33)) (BooleanLiteral False)
           (BlockStatement [stmtX]) (Some (BlockStatement [stmtY]))
   \<and> removeDeadCode specAst decidedProgram (cursorAt 1 4) emptyEditor
       = \<lparr>written = [[innerDecided, stmtX]], shownErrors = []\<rparr>
   \<and> [innerDecided, stmtX] \<noteq> [stmtY, stmtX]"
  by (simp add: removeDeadCode_def updateCode_def decidedProgram_def innerDecided_def
      editorWrite_def emptyEditor_def cursorAt_def isInsidePath_def positionLe_def specAst_def
      replaceWithConsequent_def replaceWithBodyOf_def stmtY_def Let_def)

text \<open>
  C5, amended. Take the first \<^verbatim>\<open>if\<close> statement holding the selection that the
  traversal comes to: it sits at any place of the program, no \<^verbatim>\<open>if\<close> statement visited
  before it holds the selection, apart from enclosing ones that pass. When its test
  is falsy, \<open>removeDeadCode\<close> writes the program with the whole \<^verbatim>\<open>if\<close> replaced by the
  statements of its alternate, or removed when there is none; when its test is truthy
  (and so not falsy), with the \<^verbatim>\<open>if\<close> replaced by the statements of its consequent.
  In both cases the traversal stops: the statements put in place and everything after
  the \<^verbatim>\<open>if\<close> are written as they were, whatever \<^verbatim>\<open>if\<close> statements they hold.
\<close>

theorem first_decided_if_is_replaced_and_traversal_stops:
  "(quiet sel (ifsOfList before) \<and> reaches A sel fs (IfStatement loc test c a)
      \<and> isInsidePath sel loc \<and> isFalsy A test \<longrightarrow>
      updateCodeVisitor A sel loc test c a = ReplaceAndStop (replaceWithAlternate a)
      \<and> updateCode A (place before fs (Kept (IfStatement loc test c a)) after) sel
        = \<lparr>Transformed.code =
             place before fs (case a of None \<Rightarrow> Removed | Some s \<Rightarrow> Replaced (getStatements s))
               after,
           hasCodeChanged = True\<rparr>
      \<and> removeDeadCode A (place before fs (Kept (IfStatement loc test c a)) after) sel editor
        = editorWrite
            (place before fs (case a of None \<Rightarrow> Removed | Some s \<Rightarrow> Replaced (getStatements s))
               after) editor)
   \<and> (quiet sel (ifsOfList before) \<and> reaches A sel fs (IfStatement loc test c a)
      \<and> isInsidePath sel loc \<and> \<not> isFalsy A test \<and> isTruthy A test \<longrightarrow>
      updateCodeVisitor A sel loc test c a = ReplaceAndStop (replaceWithConsequent c)
      \<and> updateCode A (place before fs (Kept (IfStatement loc test c a)) after) sel
        = \<lparr>Transformed.code = place before fs (Replaced (getStatements c)) after,
           hasCodeChanged = True\<rparr>
      \<and> removeDeadCode A (place before fs (Kept (IfStatement loc test c a)) after) sel editor
        = editorWrite (place before fs (Replaced (getStatements c)) after) editor)"
proof -
  let ?F = "IfStatement loc test c a"
  have falsy: "quiet sel (ifsOfList before) \<and> reaches A sel fs ?F
      \<and> isInsidePath sel loc \<and> isFalsy A test \<longrightarrow>
      updateCodeVisitor A sel loc test c a = ReplaceAndStop (replaceWithAlternate a)
      \<and> updateCode A (place before fs (Kept ?F) after) sel
        = \<lparr>Transformed.code =
             place before fs (case a of None \<Rightarrow> Removed | Some s \<Rightarrow> Replaced (getStatements s))
               after,
           hasCodeChanged = True\<rparr>
      \<and> removeDeadCode A (place before fs (Kept ?F) after) sel editor
        = editorWrite
            (place before fs (case a of None \<Rightarrow> Removed | Some s \<Rightarrow> Replaced (getStatements s))
               after) editor"
  proof (intro impI)
    assume h: "quiet sel (ifsOfList before) \<and> reaches A sel fs ?F
      \<and> isInsidePath sel loc \<and> isFalsy A test"
    then have v: "visit A sel ?F
        = \<lparr>tree = (case a of None \<Rightarrow> Removed | Some s \<Rightarrow> Replaced (getStatements s)),
           changed = True, stopped = True, flipped = []\<rparr>"
      by (cases a) (simp_all add: replaceWithAlternate_def replaceWithBodyOf_def)
    from h have "stopped (visit A sel ?F)
        \<or> (restQuiet sel fs \<and> quiet sel (ifsOfList after))"
      using v by simp
    from updateCode_place[OF _ _ this] h v
    have u: "updateCode A (place before fs (Kept ?F) after) sel
        = \<lparr>Transformed.code =
             place before fs (case a of None \<Rightarrow> Removed | Some s \<Rightarrow> Replaced (getStatements s))
               after,
           hasCodeChanged = True\<rparr>"
      by simp
    from h u show "updateCodeVisitor A sel loc test c a = ReplaceAndStop (replaceWithAlternate a)
      \<and> updateCode A (place before fs (Kept ?F) after) sel
        = \<lparr>Transformed.code =
             place before fs (case a of None \<Rightarrow> Removed | Some s \<Rightarrow> Replaced (getStatements s))
               after,
           hasCodeChanged = True\<rparr>
      \<and> removeDeadCode A (place before fs (Kept ?F) after) sel editor
        = editorWrite
            (place before fs (case a of None \<Rightarrow> Removed | Some s \<Rightarrow> Replaced (getStatements s))
               after) editor"
      by (simp add: updateCodeVisitor_def removeDeadCode_def Let_def)
  qed
  have truthy: "quiet sel (ifsOfList before) \<and> reaches A sel fs ?F
      \<and> isInsidePath sel loc \<and> \<not> isFalsy A test \<and> isTruthy A test \<longrightarrow>
      updateCodeVisitor A sel loc test c a = ReplaceAndStop (replaceWithConsequent c)
      \<and> updateCode A (place before fs (Kept ?F) after) sel
        = \<lparr>Transformed.code = place before fs (Replaced (getStatements c)) after,
           hasCodeChanged = True\<rparr>
      \<and> removeDeadCode A (place before fs (Kept ?F) after) sel editor
        = editorWrite (place before fs (Replaced (getStatements c)) after) editor"
  proof (intro impI)
    assume h: "quiet sel (ifsOfList before) \<and> reaches A sel fs ?F
      \<and> isInsidePath sel loc \<and> \<not> isFalsy A test \<and> isTruthy A test"
    then have v: "visit A sel ?F
        = \<lparr>tree = Replaced (getStatements c), changed = True, stopped = True, flipped = []\<rparr>"
      by (simp add: replaceWithConsequent_def replaceWithBodyOf_def)
    from h have "stopped (visit A sel ?F)
        \<or> (restQuiet sel fs \<and> quiet sel (ifsOfList after))"
      using v by simp
    from updateCode_place[OF _ _ this] h v
    have u: "updateCode A (place before fs (Kept ?F) after) sel
        = \<lparr>Transformed.code = place before fs (Replaced (getStatements c)) after,
           hasCodeChanged = True\<rparr>"
      by simp
    from h u show "updateCodeVisitor A sel loc test c a = ReplaceAndStop (replaceWithConsequent c)
      \<and> updateCode A (place before fs (Kept ?F) after) sel
        = \<lparr>Transformed.code = place before fs (Replaced (getStatements c)) after,
           hasCodeChanged = True\<rparr>
      \<and> removeDeadCode A (place before fs (Kept ?F) after) sel editor
        = editorWrite (place before fs (Replaced (getStatements c)) after) editor"
      by (simp add: updateCodeVisitor_def removeDeadCode_def Let_def)
  qed
  from falsy truthy show ?thesis by blast
qed

theorem first_decided_if_is_replaced_and_traversal_stops_witness:
  "quiet (cursorAt 3 4) (ifsOfList [stmtY])
   \<and> reaches specAst (cursorAt 3 4)
        [InConsequent (Selection (Position 1 0) (Position 5 1)) (Identifier ''c'') None,
         InBlock [stmtX]
           [IfStatement (Selection (Position 4 2) (Position 4 19)) (BooleanLiteral True)
              (BlockStatement [stmtX]) None]]
        (IfStatement (Selection (Position 3 2) (Position 3 33)) (BooleanLiteral False)
           (BlockStatement [stmtX]) (Some (BlockStatement [stmtY])))
   \<and> isInsidePath (cursorAt 3 4) (Selection (Position 3 2) (Position 3 33))
   \<and> isFalsy specAst (BooleanLiteral False)
   \<and> removeDeadCode specAst guardedProgram (cursorAt 3 4) emptyEditor
       = \<lparr>written =
            [[stmtY,
              IfStatement (Selection (Position 1 0) (Position 5 1)) (Identifier ''c'')
                (BlockStatement
                   [stmtX, stmtY,
                    IfStatement (Selection (Position 4 2) (Position 4 19)) (BooleanLiteral True)
                      (BlockStatement [stmtX]) None])
                None,
              stmtX]],
          shownErrors = []\<rparr>
   \<and> quiet (cursorAt 1 4) (ifsOfList [])
   \<and> isInsidePath (cursorAt 1 4) (Selection (Position 0 0) (Position 2 1))
   \<and> \<not> isFalsy specAst (BooleanLiteral True) \<and> isTruthy specAst (BooleanLiteral True)
   \<and> removeDeadCode specAst decidedProgram (cursorAt 1 4) emptyEditor
       = \<lparr>written = [[innerDecided, stmtX]], shownErrors = []\<rparr>"
proof -
  let ?fs = "[InConsequent (Selection (Position 1 0) (Position 5 1)) (Identifier ''c'') None,
         InBlock [stmtX]
           [IfStatement (Selection (Position 4 2) (Position 4 19)) (BooleanLiteral True)
              (BlockStatement [stmtX]) None]]"
  let ?F = "IfStatement (Selection (Position 3 2) (Position 3 33)) (BooleanLiteral False)
           (BlockStatement [stmtX]) (Some (BlockStatement [stmtY]))"
  have h1: "quiet (cursorAt 3 4) (ifsOfList [stmtY])
     \<and> reaches specAst (cursorAt 3 4) ?fs ?F
     \<and> isInsidePath (cursorAt 3 4) (Selection (Position 3 2) (Position 3 33))
     \<and> isFalsy specAst (BooleanLiteral False)"
    by (simp add: quiet_def stmtY_def stmtX_def passes_def undecided_def cursorAt_def
        isInsidePath_def positionLe_def specAst_def oppositeTest_def isNegationOf_def)
  have h2: "quiet (cursorAt 1 4) (ifsOfList [])
     \<and> isInsidePath (cursorAt 1 4) (Selection (Position 0 0) (Position 2 1))
     \<and> \<not> isFalsy specAst (BooleanLiteral True) \<and> isTruthy specAst (BooleanLiteral True)"
    by (simp add: quiet_def cursorAt_def isInsidePath_def positionLe_def specAst_def)
  note falsy = first_decided_if_is_replaced_and_traversal_stops
       [where sel = "cursorAt 3 4" and before = "[stmtY]" and A = specAst and fs = ?fs
          and loc = "Selection (Position 3 2) (Position 3 33)" and test = "BooleanLiteral False"
          and c = "BlockStatement [stmtX]" and a = "Some (BlockStatement [stmtY])"
          and after = "[stmtX]" and editor = emptyEditor, THEN conjunct1]
  note truthy = first_decided_if_is_replaced_and_traversal_stops
       [where sel = "cursorAt 1 4" and before = "[]" and A = specAst and fs = "[]"
          and loc = "Selection (Position 0 0) (Position 2 1)" and test = "BooleanLiteral True"
          and c = "BlockStatement [innerDecided]" and a = None
          and after = "[stmtX]" and editor = emptyEditor, THEN conjunct2]
  from h1 falsy
  have r1: "removeDeadCode specAst guardedProgram (cursorAt 3 4) emptyEditor
       = \<lparr>written =
            [[stmtY,
              IfStatement (Selection (Position 1 0) (Position 5 1)) (Identifier ''c'')
                (BlockStatement
                   [stmtX, stmtY,
                    IfStatement (Selection (Position 4 2) (Position 4 19)) (BooleanLiteral True)
                      (BlockStatement [stmtX]) None])
                None,
              stmtX]],
          shownErrors = []\<rparr>"
    by (simp add: guardedProgram_def place_def editorWrite_def emptyEditor_def)
  from h2 truthy
  have r2: "removeDeadCode specAst decidedProgram (cursorAt 1 4) emptyEditor
       = \<lparr>written = [[innerDecided, stmtX]], shownErrors = []\<rparr>"
    by (simp add: decidedProgram_def place_def editorWrite_def emptyEditor_def)
  from h1 h2 r1 r2 show ?thesis by blast
qed


section \<open>Dead-code removal: nested ifs under an undecided test\<close>





section \<open>Negation: De Morgan on a logical expression\<close>

text \<open>
  C7. For a logical expression, \<open>negate\<close> rewrites \<^verbatim>\<open>a && b\<close> to
  \<^verbatim>\<open>!(NOT(a) || NOT(b))\<close> and \<^verbatim>\<open>a || b\<close> to \<^verbatim>\<open>!(NOT(a) && NOT(b))\<close>. \<^verbatim>\<open>NOT\<close> is
  \<open>negateOperand\<close>, which follows the same rule on a nested logical expression and
  flips the operator of a nested comparison without adding a \<^verbatim>\<open>!\<close>. The result
  starts with exactly one \<^verbatim>\<open>!\<close>.
\<close>

theorem negate_logical_is_de_morgan:
  "negate (LogicalExpression ''&&'' a b)
     = UnaryExpression ''!'' (LogicalExpression ''||'' (negateOperand a) (negateOperand b))
   \<and> negate (LogicalExpression ''||'' a b)
     = UnaryExpression ''!'' (LogicalExpression ''&&'' (negateOperand a) (negateOperand b))
   \<and> negateOperand (LogicalExpression ''&&'' a b) = negate (LogicalExpression ''&&'' a b)
   \<and> negateOperand (LogicalExpression ''||'' a b) = negate (LogicalExpression ''||'' a b)
   \<and> (map_of oppositeOperators op = Some op' \<longrightarrow>
        negateOperand (BinaryExpression op l r) = BinaryExpression op' l r)
   \<and> leadingNegations (negate (LogicalExpression ''&&'' a b)) = 1
   \<and> leadingNegations (negate (LogicalExpression ''||'' a b)) = 1"
  by (simp add: getNegatedLogicalOperator_def)

theorem negate_logical_is_de_morgan_witness:
  "map_of oppositeOperators ''=='' = Some ''!=''
   \<and> negate (LogicalExpression ''&&''
        (BinaryExpression ''=='' (Identifier ''a'') (Identifier ''b''))
        (BinaryExpression ''=='' (Identifier ''b'') (Identifier ''c'')))
     = UnaryExpression ''!'' (LogicalExpression ''||''
        (BinaryExpression ''!='' (Identifier ''a'') (Identifier ''b''))
        (BinaryExpression ''!='' (Identifier ''b'') (Identifier ''c'')))
   \<and> negate (LogicalExpression ''||''
        (BinaryExpression ''=='' (Identifier ''a'') (Identifier ''b''))
        (BinaryExpression ''=='' (Identifier ''b'') (Identifier ''c'')))
     = UnaryExpression ''!'' (LogicalExpression ''&&''
        (BinaryExpression ''!='' (Identifier ''a'') (Identifier ''b''))
        (BinaryExpression ''!='' (Identifier ''b'') (Identifier ''c'')))"
proof -
  have table: "map_of oppositeOperators ''=='' = Some ''!=''"
    by (simp add: oppositeOperators_def)
  note ab = negate_logical_is_de_morgan
      [where a = "BinaryExpression ''=='' (Identifier ''a'') (Identifier ''b'')"
         and b = "BinaryExpression ''=='' (Identifier ''b'') (Identifier ''c'')"
         and op = "''==''" and op' = "''!=''" and l = "Identifier ''a''" and r = "Identifier ''b''"]
  note bc = negate_logical_is_de_morgan
      [where op = "''==''" and op' = "''!=''" and l = "Identifier ''b''" and r = "Identifier ''c''"]
  from table ab have left: "negateOperand (BinaryExpression ''=='' (Identifier ''a'') (Identifier ''b''))
      = BinaryExpression ''!='' (Identifier ''a'') (Identifier ''b'')" by blast
  from table bc have right: "negateOperand (BinaryExpression ''=='' (Identifier ''b'') (Identifier ''c''))
      = BinaryExpression ''!='' (Identifier ''b'') (Identifier ''c'')" by blast
  from ab left right table show ?thesis by simp
qed


section \<open>Negation: the target in a logical expression\<close>





section \<open>Negation: one edit or one notification\<close>

text \<open>
  C9. When no negatable expression holds the selection, \<open>negateExpression\<close> makes
  no edit and reports \<open>DidNotFoundNegatableExpression\<close> once; this is the case of
  \<^verbatim>\<open>console.log("Nothing to negate here!")\<close> with the cursor at character 0. When
  there is a target, it makes exactly one edit, which replaces the target's range by
  its negation, and reports nothing.
\<close>

theorem negateExpression_edits_once_or_reports_once:
  "(findNegatableExpression root sel = None \<longrightarrow>
      edits (negateExpression root sel host) = edits host
      \<and> notifications (negateExpression root sel host)
          = notifications host @ [DidNotFoundNegatableExpression])
   \<and> (findNegatableExpression root sel = Some target \<longrightarrow>
      edits (negateExpression root sel host)
          = edits host @ [(locOf target, [Update (negate (exprOf target)) (locOf target)])]
      \<and> notifications (negateExpression root sel host) = notifications host)
   \<and> findNegatableExpression consoleLog (cursorAt 0 0) = None
   \<and> negateExpression consoleLog (cursorAt 0 0) emptyHost
       = \<lparr>edits = [], notifications = [DidNotFoundNegatableExpression]\<rparr>"
proof -
  have none: "findNegatableExpression consoleLog (cursorAt 0 0) = None"
    by (simp add: findNegatableExpression_def consoleLog_def ident_def cursorAt_def
        isInsidePath_def positionLe_def)
  have c1: "findNegatableExpression root sel = None \<longrightarrow>
      edits (negateExpression root sel host) = edits host
      \<and> notifications (negateExpression root sel host)
          = notifications host @ [DidNotFoundNegatableExpression]"
    by (simp add: negateExpression_def showErrorMessage_def)
  have c2: "findNegatableExpression root sel = Some target \<longrightarrow>
      edits (negateExpression root sel host)
          = edits host @ [(locOf target, [Update (negate (exprOf target)) (locOf target)])]
      \<and> notifications (negateExpression root sel host) = notifications host"
    by (cases target) (simp add: negateExpression_def readThenWriteUpdates_def)
  have c3: "negateExpression consoleLog (cursorAt 0 0) emptyHost
       = \<lparr>edits = [], notifications = [DidNotFoundNegatableExpression]\<rparr>"
    by (simp add: negateExpression_def none showErrorMessage_def emptyHost_def)
  from none c1 c2 c3 show ?thesis by blast
qed

theorem negateExpression_edits_once_or_reports_once_witness:
  "findNegatableExpression aEqBOrBEqC (cursorAt 0 12) = Some aEqBOrBEqC
   \<and> edits (negateExpression aEqBOrBEqC (cursorAt 0 12) emptyHost)
       = [(Selection (Position 0 4) (Position 0 20),
           [Update (UnaryExpression ''!'' (LogicalExpression ''&&''
                      (BinaryExpression ''!='' (Identifier ''a'') (Identifier ''b''))
                      (BinaryExpression ''!='' (Identifier ''b'') (Identifier ''c''))))
                   (Selection (Position 0 4) (Position 0 20))])]
   \<and> notifications (negateExpression aEqBOrBEqC (cursorAt 0 12) emptyHost) = []
   \<and> findNegatableExpression consoleLog (cursorAt 0 0) = None
   \<and> edits (negateExpression consoleLog (cursorAt 0 0) emptyHost) = []
   \<and> notifications (negateExpression consoleLog (cursorAt 0 0) emptyHost)
       = [DidNotFoundNegatableExpression]"
proof -
  note some = negateExpression_edits_once_or_reports_once
      [where root = aEqBOrBEqC and sel = "cursorAt 0 12" and target = aEqBOrBEqC
         and host = emptyHost, THEN conjunct2, THEN conjunct1]
  note failing = negateExpression_edits_once_or_reports_once
      [where root = consoleLog and sel = "cursorAt 0 0" and host = emptyHost]
  have none: "findNegatableExpression consoleLog (cursorAt 0 0) = None"
    by (rule failing [THEN conjunct2, THEN conjunct2, THEN conjunct1])
  with failing [THEN conjunct1] have r1: "edits (negateExpression consoleLog (cursorAt 0 0) emptyHost) = []
      \<and> notifications (negateExpression consoleLog (cursorAt 0 0) emptyHost)
          = [DidNotFoundNegatableExpression]"
    by (simp add: emptyHost_def)
  from some aEqBOrBEqC_at_operator
  have r2: "edits (negateExpression aEqBOrBEqC (cursorAt 0 12) emptyHost)
       = [(Selection (Position 0 4) (Position 0 20),
           [Update (UnaryExpression ''!'' (LogicalExpression ''&&''
                      (BinaryExpression ''!='' (Identifier ''a'') (Identifier ''b''))
                      (BinaryExpression ''!='' (Identifier ''b'') (Identifier ''c''))))
                   (Selection (Position 0 4) (Position 0 20))])]
      \<and> notifications (negateExpression aEqBOrBEqC (cursorAt 0 12) emptyHost) = []"
    by (simp add: emptyHost_def aEqBOrBEqC_def getNegatedLogicalOperator_def
        oppositeOperators_def)
  from none r1 r2 aEqBOrBEqC_at_operator show ?thesis by blast
qed

end
